theory Spec2Isabelle
  imports Complex_Main "HOL-Library.AList" "HOL-Library.Sublist"
begin

section \<open>Data model\<close>

text \<open>
  The scripts of the satellite health monitor pass pandas tables between each other.
  A table cell is a number, a string, a time stamp (seconds since the epoch, as
  \<open>pd.to_datetime\<close> produces it) or missing (NaN, NaT, None).  Floating-point numbers
  are idealised as reals; the results \<open>inf\<close>, \<open>-inf\<close> that numpy gives for a division
  by zero are cells of their own.  A table is the list of its columns in column order,
  each with its name; all columns of a table have the same length.
\<close>

datatype cell = Num real | PInf | NInf | NaN | Str string | Stamp int

type_synonym column = "cell list"
type_synonym dataframe = "(string \<times> column) list"

datatype error =
    KeyError string
  | IndexError
  | TypeError string
  | ValueError string
  | ZeroDivisionError
  | OtherException string

definition columns :: "dataframe \<Rightarrow> string list" where
  "columns df = map fst df"

definition len_df :: "dataframe \<Rightarrow> nat" where
  "len_df df = (case df of [] \<Rightarrow> 0 | (_, c) # _ \<Rightarrow> length c)"

text \<open>\<open>df[name]\<close>: the column, or KeyError.\<close>

definition get_col :: "dataframe \<Rightarrow> string \<Rightarrow> error + column" where
  "get_col df name = (case map_of df name of None \<Rightarrow> Inl (KeyError name) | Some c \<Rightarrow> Inr c)"

text \<open>\<open>df[name] = c\<close>: replaces the column in place, or appends a new last column.\<close>

definition set_col :: "string \<Rightarrow> column \<Rightarrow> dataframe \<Rightarrow> dataframe" where
  "set_col name c df = AList.update name c df"

text \<open>\<open>s.iloc[j]\<close> on a column: a negative position counts from the end.\<close>

definition iloc :: "column \<Rightarrow> int \<Rightarrow> error + cell" where
  "iloc c j =
     (let n = int (length c); k = (if j < 0 then n + j else j)
      in if 0 \<le> k \<and> k < n then Inr (c ! nat k) else Inl IndexError)"

section \<open>data_preprocessing.py: the dataset builders\<close>

type_synonym matrix = "cell list list"

definition excluded_columns :: "string list" where
  "excluded_columns =
     [''timestamp'', ''satellite_id'', ''anomaly'', ''anomaly_parameter'', ''root_cause'']"

text \<open>\<open>df[names].iloc[lo:hi].values\<close>: one list per row, in the order of \<open>names\<close>.\<close>

definition rows_values :: "dataframe \<Rightarrow> string list \<Rightarrow> nat \<Rightarrow> nat \<Rightarrow> matrix" where
  "rows_values df names lo hi =
     map (\<lambda>r. map (\<lambda>n. the (map_of df n) ! r) names) [lo ..< min hi (len_df df)]"

subsection \<open>create_time_series_dataset\<close>

definition feature_columns :: "dataframe \<Rightarrow> string list" where
  "feature_columns df = filter (\<lambda>col. col \<notin> set excluded_columns) (columns df)"

definition target_column :: string where
  "target_column = ''anomaly''"

text \<open>One pass of the loop body for window start \<open>i\<close>: the window and its label.\<close>

definition ts_step :: "dataframe \<Rightarrow> nat \<Rightarrow> nat \<Rightarrow> nat \<Rightarrow> error + (matrix \<times> cell)" where
  "ts_step df sequence_length prediction_horizon i =
     (let w = rows_values df (feature_columns df) i (i + sequence_length) in
      case get_col df target_column of
        Inl e \<Rightarrow> Inl e
      | Inr a \<Rightarrow>
          (case iloc a (int i + int sequence_length + int prediction_horizon - 1) of
             Inl e \<Rightarrow> Inl e
           | Inr v \<Rightarrow> Inr (w, v)))"

fun ts_loop ::
  "dataframe \<Rightarrow> nat \<Rightarrow> nat \<Rightarrow> nat list \<Rightarrow> matrix list \<Rightarrow> cell list
     \<Rightarrow> error + (matrix list \<times> cell list)" where
  "ts_loop df L H [] X y = Inr (X, y)"
| "ts_loop df L H (i # rest) X y =
     (case ts_step df L H i of
        Inl e \<Rightarrow> Inl e
      | Inr (w, v) \<Rightarrow> ts_loop df L H rest (X @ [w]) (y @ [v]))"

text \<open>
  \<open>range(len(df) - sequence_length - prediction_horizon + 1)\<close> is empty when its
  argument is not positive.
\<close>

definition create_time_series_dataset ::
  "dataframe \<Rightarrow> nat \<Rightarrow> nat \<Rightarrow> error + (matrix list \<times> cell list)" where
  "create_time_series_dataset df sequence_length prediction_horizon =
     ts_loop df sequence_length prediction_horizon
       [0 ..< nat (int (len_df df) - int sequence_length - int prediction_horizon + 1)] [] []"

subsection \<open>create_root_cause_dataset\<close>

text \<open>\<open>df[mask]\<close>: the rows where the mask holds, in every column.\<close>

definition bool_index :: "dataframe \<Rightarrow> bool list \<Rightarrow> dataframe" where
  "bool_index df msk = map (\<lambda>(n, c). (n, map fst (filter snd (zip c msk)))) df"

text \<open>\<open>df.empty\<close>: some axis has length 0.\<close>

definition empty_df :: "dataframe \<Rightarrow> bool" where
  "empty_df df \<longleftrightarrow> df = [] \<or> len_df df = 0"

definition root_feature_columns :: "dataframe \<Rightarrow> string list" where
  "root_feature_columns df =
     filter (\<lambda>col. col \<notin> set excluded_columns \<and> \<not> prefix ''cause_'' col) (columns df)"

definition target_columns :: "dataframe \<Rightarrow> string list" where
  "target_columns df = filter (\<lambda>col. prefix ''cause_'' col) (columns df)"

text \<open>
  The result is the pair \<open>(X, y)\<close>, or \<open>None\<close> for the pair \<open>(None, None)\<close>, together
  with the lines printed.
\<close>

definition create_root_cause_dataset ::
  "dataframe \<Rightarrow> error + ((matrix \<times> matrix) option \<times> string list)" where
  "create_root_cause_dataset df =
     (case get_col df ''anomaly'' of
        Inl e \<Rightarrow> Inl e
      | Inr a \<Rightarrow>
          (let anomaly_df = bool_index df (map (\<lambda>c. c = Num 1) a) in
           if empty_df anomaly_df \<or> target_columns df = []
           then Inr (None, [''No anomalies found for root cause analysis dataset''])
           else Inr (Some (rows_values anomaly_df (root_feature_columns df) 0 (len_df anomaly_df),
                           rows_values anomaly_df (target_columns df) 0 (len_df anomaly_df)),
                     [])))"

section \<open>data_preprocessing.py: preprocess_satellite_data\<close>

subsection \<open>The pandas operations it uses\<close>

text \<open>
  Arithmetic on cells follows IEEE 754 without rounding and without signed zeros: a
  missing operand gives a missing result, \<open>inf - inf\<close> and \<open>0 / 0\<close> are NaN, and a
  nonzero number divided by zero is an infinity.
\<close>

fun cell_sub :: "cell \<Rightarrow> cell \<Rightarrow> cell" where
  "cell_sub (Num x) (Num y) = Num (x - y)"
| "cell_sub (Num x) PInf = NInf"
| "cell_sub (Num x) NInf = PInf"
| "cell_sub PInf (Num y) = PInf"
| "cell_sub PInf NInf = PInf"
| "cell_sub NInf (Num y) = NInf"
| "cell_sub NInf PInf = NInf"
| "cell_sub _ _ = NaN"

fun cell_div :: "cell \<Rightarrow> cell \<Rightarrow> cell" where
  "cell_div (Num x) (Num y) =
     (if y = 0 then (if 0 < x then PInf else if x < 0 then NInf else NaN) else Num (x / y))"
| "cell_div (Num x) PInf = Num 0"
| "cell_div (Num x) NInf = Num 0"
| "cell_div PInf (Num y) = (if 0 \<le> y then PInf else NInf)"
| "cell_div NInf (Num y) = (if 0 \<le> y then NInf else PInf)"
| "cell_div _ _ = NaN"

text \<open>\<open>s.diff()\<close>: the first difference; the first entry is missing.\<close>

definition diff :: "column \<Rightarrow> column" where
  "diff xs = (case xs of [] \<Rightarrow> [] | _ # rest \<Rightarrow> NaN # map2 (\<lambda>prev cur. cell_sub cur prev) xs rest)"

text \<open>\<open>s.fillna(v)\<close> with a scalar, and \<open>s.fillna(other)\<close> with a column on the same index.\<close>

definition fillna :: "cell \<Rightarrow> column \<Rightarrow> column" where
  "fillna v xs = map (\<lambda>c. if c = NaN then v else c) xs"

definition fillna_series :: "column \<Rightarrow> column \<Rightarrow> column" where
  "fillna_series other xs = map2 (\<lambda>c y. if c = NaN then y else c) xs other"

text \<open>\<open>s.replace(old, new)\<close>.\<close>

definition replace_val :: "cell \<Rightarrow> cell \<Rightarrow> column \<Rightarrow> column" where
  "replace_val old new xs = map (\<lambda>c. if c = old then new else c) xs"

text \<open>
  \<open>s.rolling(window=w)\<close>: the window that ends at row \<open>i\<close>, when it has \<open>w\<close> observations
  (pandas takes \<open>min_periods = w\<close>, and a missing value is no observation).  Windows
  that hold an infinity are outside the model and count as incomplete; the properties
  below that rest on it are stated for finite values.
\<close>

fun num_of :: "cell \<Rightarrow> real option" where
  "num_of (Num x) = Some x"
| "num_of _ = None"

definition window_at :: "nat \<Rightarrow> column \<Rightarrow> nat \<Rightarrow> real list option" where
  "window_at w xs i =
     (if i + 1 < w then None else those (map num_of (take w (drop (i + 1 - w) xs))))"

definition mean :: "real list \<Rightarrow> real" where
  "mean v = sum_list v / real (length v)"

text \<open>The sample standard deviation (\<open>ddof = 1\<close>).\<close>

definition std :: "real list \<Rightarrow> real" where
  "std v = sqrt (sum_list (map (\<lambda>x. (x - mean v)\<^sup>2) v) / real (length v - 1))"

definition rolling_mean :: "nat \<Rightarrow> column \<Rightarrow> column" where
  "rolling_mean w xs =
     map (\<lambda>i. case window_at w xs i of None \<Rightarrow> NaN | Some v \<Rightarrow> Num (mean v)) [0 ..< length xs]"

definition rolling_std :: "nat \<Rightarrow> column \<Rightarrow> column" where
  "rolling_std w xs =
     map (\<lambda>i. case window_at w xs i of None \<Rightarrow> NaN | Some v \<Rightarrow> Num (std v)) [0 ..< length xs]"

text \<open>\<open>df.dropna()\<close>: the rows without a missing cell.\<close>

definition dropna :: "dataframe \<Rightarrow> dataframe" where
  "dropna df =
     bool_index df (map (\<lambda>i. list_all (\<lambda>(n, c). c ! i \<noteq> NaN) df) [0 ..< len_df df])"

text \<open>A column of numbers: arithmetic on text or time stamps raises TypeError.\<close>

definition numeric :: "column \<Rightarrow> bool" where
  "numeric c = list_all (\<lambda>x. case x of Str _ \<Rightarrow> False | Stamp _ \<Rightarrow> False | _ \<Rightarrow> True) c"

subsection \<open>The steps of preprocess_satellite_data\<close>

text \<open>
  The table is taken as \<open>pd.read_csv\<close> and \<open>pd.to_datetime\<close> deliver it: the cells of
  the timestamp column are time stamps or missing (NaT).  \<open>dt.hour\<close> is the hour of the
  day, \<open>dt.dayofweek\<close> counts from Monday = 0 (the epoch was a Thursday).
\<close>

fun hour :: "cell \<Rightarrow> cell" where
  "hour (Stamp t) = Num (real_of_int ((t div 3600) mod 24))"
| "hour _ = NaN"

fun day_of_week :: "cell \<Rightarrow> cell" where
  "day_of_week (Stamp t) = Num (real_of_int ((t div 86400 + 3) mod 7))"
| "day_of_week _ = NaN"

definition add_time_features :: "dataframe \<Rightarrow> error + dataframe" where
  "add_time_features df =
     (case get_col df ''timestamp'' of
        Inl e \<Rightarrow> Inl e
      | Inr ts \<Rightarrow>
          if \<not> list_all (\<lambda>c. case c of Stamp _ \<Rightarrow> True | NaN \<Rightarrow> True | _ \<Rightarrow> False) ts
          then Inl (ValueError ''timestamp'')
          else Inr (set_col ''day_of_week'' (map day_of_week ts)
                     (set_col ''hour'' (map hour ts) df)))"

definition params :: "string list" where
  "params = [''power'', ''temperature'', ''batteryHealth'', ''signalStrength'', ''memoryUsage'']"

definition window_size :: nat where
  "window_size = 6"

text \<open>The body of the loop over the five parameters.\<close>

definition add_param_features :: "string \<Rightarrow> dataframe \<Rightarrow> error + dataframe" where
  "add_param_features param df =
     (case get_col df param of
        Inl e \<Rightarrow> Inl e
      | Inr x \<Rightarrow>
          if \<not> numeric x then Inl (TypeError param)
          else
            let delta = fillna (Num 0) (diff x);
                mean_1h = fillna_series x (rolling_mean window_size x);
                std_1h = fillna (Num 0) (rolling_std window_size x);
                deviation = map2 cell_sub x mean_1h
            in Inr (set_col (param @ ''_deviation'') deviation
                     (set_col (param @ ''_std_1h'') std_1h
                       (set_col (param @ ''_mean_1h'') mean_1h
                         (set_col (param @ ''_delta'') delta df)))))"

fun fold_err :: "('a \<Rightarrow> 'b \<Rightarrow> error + 'b) \<Rightarrow> 'a list \<Rightarrow> 'b \<Rightarrow> error + 'b" where
  "fold_err f [] s = Inr s"
| "fold_err f (x # xs) s = (case f x s of Inl e \<Rightarrow> Inl e | Inr s' \<Rightarrow> fold_err f xs s')"

text \<open>\<open>num / den.replace(0, 0.1)\<close>.\<close>

definition ratio :: "column \<Rightarrow> column \<Rightarrow> column" where
  "ratio num den = map2 cell_div num (replace_val (Num 0) (Num (1 / 10)) den)"

definition add_interaction_features :: "dataframe \<Rightarrow> error + dataframe" where
  "add_interaction_features df =
     (case get_col df ''power'' of Inl e \<Rightarrow> Inl e | Inr power_col \<Rightarrow>
      case get_col df ''temperature'' of Inl e \<Rightarrow> Inl e | Inr temperature_col \<Rightarrow>
      case get_col df ''batteryHealth'' of Inl e \<Rightarrow> Inl e | Inr battery_col \<Rightarrow>
        Inr (set_col ''battery_power_ratio'' (ratio battery_col power_col)
              (set_col ''power_temp_ratio'' (ratio power_col temperature_col) df)))"

text \<open>
  The scan over \<open>eclipse_change\<close>: \<open>counter\<close> is the value the loop carries into the
  row; the list holds what is stored in \<open>time_since_eclipse_change\<close>.
\<close>

fun eclipse_scan :: "int \<Rightarrow> column \<Rightarrow> int list" where
  "eclipse_scan counter [] = []"
| "eclipse_scan counter (change # rest) =
     (let counter' = (if change \<noteq> Num 0 then 0 else counter + 1)
      in counter' # eclipse_scan counter' rest)"

definition eclipse_change :: "column \<Rightarrow> column" where
  "eclipse_change in_eclipse = fillna (Num 0) (diff in_eclipse)"

definition time_since_eclipse_change :: "column \<Rightarrow> int list" where
  "time_since_eclipse_change in_eclipse = eclipse_scan 0 (eclipse_change in_eclipse)"

definition add_eclipse_features :: "dataframe \<Rightarrow> error + dataframe" where
  "add_eclipse_features df =
     (case get_col df ''in_eclipse'' of
        Inl e \<Rightarrow> Inl e
      | Inr in_eclipse \<Rightarrow>
          if \<not> numeric in_eclipse then Inl (TypeError ''in_eclipse'')
          else Inr (set_col ''time_since_eclipse_change''
                      (map (\<lambda>k. Num (real_of_int k)) (time_since_eclipse_change in_eclipse))
                      (set_col ''eclipse_change'' (eclipse_change in_eclipse) df)))"

text \<open>
  The anomaly file, read: one pair of time stamp and root-cause text per event.
  \<open>unique\<close> keeps the first occurrence of each value, in order.
\<close>

type_synonym anomaly_rows = "(cell \<times> string) list"

fun unique :: "'a list \<Rightarrow> 'a list" where
  "unique [] = []"
| "unique (x # xs) = x # unique (filter (\<lambda>y. y \<noteq> x) xs)"

text \<open>The first row whose time stamp equals \<open>ts\<close>; NaT equals nothing.\<close>

definition first_match :: "column \<Rightarrow> cell \<Rightarrow> nat option" where
  "first_match col ts =
     (if ts = NaN then None else List.find (\<lambda>i. col ! i = ts) [0 ..< length col])"

definition mark_anomaly :: "cell \<times> string \<Rightarrow> dataframe \<Rightarrow> dataframe" where
  "mark_anomaly row df =
     (case first_match (the (map_of df ''timestamp'')) (fst row) of
        None \<Rightarrow> df
      | Some i \<Rightarrow>
          set_col (''cause_'' @ snd row)
            ((the (map_of df (''cause_'' @ snd row)))[i := Num 1]) df)"

definition merge_anomalies :: "anomaly_rows \<Rightarrow> dataframe \<Rightarrow> dataframe" where
  "merge_anomalies anomalies df =
     fold mark_anomaly anomalies
       (fold (\<lambda>cause d. set_col (''cause_'' @ cause) (replicate (len_df d) (Num 0)) d)
          (unique (map snd anomalies)) df)"

text \<open>Everything up to the merge of the anomaly file: the table before \<open>dropna\<close>.\<close>

definition engineer_features :: "dataframe \<Rightarrow> anomaly_rows option \<Rightarrow> error + dataframe" where
  "engineer_features telemetry anomaly_file =
     (case add_time_features telemetry of Inl e \<Rightarrow> Inl e | Inr df1 \<Rightarrow>
      case fold_err add_param_features params df1 of Inl e \<Rightarrow> Inl e | Inr df2 \<Rightarrow>
      case add_interaction_features df2 of Inl e \<Rightarrow> Inl e | Inr df3 \<Rightarrow>
      case add_eclipse_features df3 of Inl e \<Rightarrow> Inl e | Inr df4 \<Rightarrow>
        Inr (case anomaly_file of None \<Rightarrow> df4 | Some anomalies \<Rightarrow> merge_anomalies anomalies df4))"

definition ensure_anomaly_column :: "dataframe \<Rightarrow> dataframe" where
  "ensure_anomaly_column df =
     (if ''anomaly'' \<notin> set (columns df)
      then set_col ''anomaly'' (replicate (len_df df) (Num 0)) df else df)"

definition preprocess_satellite_data ::
  "dataframe \<Rightarrow> anomaly_rows option \<Rightarrow> error + dataframe" where
  "preprocess_satellite_data telemetry anomaly_file =
     (case engineer_features telemetry anomaly_file of
        Inl e \<Rightarrow> Inl e
      | Inr df \<Rightarrow> Inr (ensure_anomaly_column (dropna df)))"

subsection \<open>Telemetry tables without missing values\<close>

text \<open>
  A telemetry table of \<open>n\<close> rows in which no cell is missing, the time stamps are
  parsed, and the five parameters and the eclipse flag are finite numbers: what the
  generator writes when it injects no anomaly labels.
\<close>

definition finite_column :: "column \<Rightarrow> bool" where
  "finite_column c = list_all (\<lambda>x. case x of Num _ \<Rightarrow> True | _ \<Rightarrow> False) c"

definition stamp_column :: "column \<Rightarrow> bool" where
  "stamp_column c = list_all (\<lambda>x. case x of Stamp _ \<Rightarrow> True | _ \<Rightarrow> False) c"

definition required_columns :: "string list" where
  "required_columns = params @ [''in_eclipse'']"

definition complete_telemetry :: "nat \<Rightarrow> dataframe \<Rightarrow> bool" where
  "complete_telemetry n df \<longleftrightarrow>
     df \<noteq> [] \<and> list_all (\<lambda>(k, c). length c = n \<and> NaN \<notin> set c) df
     \<and> (case map_of df ''timestamp'' of Some ts \<Rightarrow> stamp_column ts | None \<Rightarrow> False)
     \<and> list_all (\<lambda>p. case map_of df p of Some x \<Rightarrow> finite_column x | None \<Rightarrow> False)
          required_columns"

text \<open>Six samples at ten-minute steps, for the examples below.\<close>

definition telemetry_example :: dataframe where
  "telemetry_example =
     [(''timestamp'', [Stamp 0, Stamp 600, Stamp 1200, Stamp 1800, Stamp 2400, Stamp 3000]),
      (''satellite_id'', replicate 6 (Str ''SAT-001'')),
      (''orbit_position'', [Num 0, Num (2 / 19), Num (4 / 19), Num (6 / 19), Num (8 / 19),
                            Num (10 / 19)]),
      (''in_eclipse'', [Num 0, Num 0, Num 0, Num 1, Num 1, Num 1]),
      (''power'', [Num 90, Num 90, Num 90, Num 90, Num 90, Num 90]),
      (''temperature'', [Num 25, Num 26, Num 0, Num 28, Num 29, Num 30]),
      (''batteryHealth'', [Num 95, Num 95, Num 95, Num 95, Num 95, Num 95]),
      (''signalStrength'', [Num 85, Num 86, Num 87, Num 88, Num 89, Num 90]),
      (''memoryUsage'', [Num 60, Num 61, Num 62, Num 63, Num 64, Num 65])]"

text \<open>
  Two samples as the generator writes them when it has labelled the second one: the
  root cause of the unlabelled sample is an empty cell.
\<close>

definition labelled_example :: dataframe where
  "labelled_example =
     [(''timestamp'', [Stamp 0, Stamp 600]),
      (''satellite_id'', [Str ''SAT-001'', Str ''SAT-001'']),
      (''in_eclipse'', [Num 0, Num 0]),
      (''power'', [Num 90, Num 63]),
      (''temperature'', [Num 25, Num 26]),
      (''batteryHealth'', [Num 95, Num 95]),
      (''signalStrength'', [Num 85, Num 86]),
      (''memoryUsage'', [Num 60, Num 61]),
      (''anomaly'', [Num 0, Num 1]),
      (''root_cause'', [NaN, Str ''solar_panel_degradation''])]"

section \<open>train_lifetime_prediction.py: the battery end-of-life labels\<close>

text \<open>
  The script labels every telemetry row with the days left until the battery reaches
  60 percent, from the current rate of change of the battery health (lines 11 to 36).
\<close>

fun cell_abs :: "cell \<Rightarrow> cell" where
  "cell_abs (Num x) = Num \<bar>x\<bar>"
| "cell_abs PInf = PInf"
| "cell_abs NInf = PInf"
| "cell_abs _ = NaN"

text \<open>Comparisons with a number: a missing value compares false.\<close>

fun cell_less :: "cell \<Rightarrow> real \<Rightarrow> bool" where
  "cell_less (Num x) r = (x < r)"
| "cell_less NInf r = True"
| "cell_less _ r = False"

fun cell_greater :: "cell \<Rightarrow> real \<Rightarrow> bool" where
  "cell_greater (Num x) r = (r < x)"
| "cell_greater PInf r = True"
| "cell_greater _ r = False"

text \<open>
  \<open>df.groupby(key)[col].diff()\<close>: the difference to the previous row of the same group;
  missing in the first row of a group and in rows whose key is missing.
\<close>

definition group_diff :: "column \<Rightarrow> column \<Rightarrow> column" where
  "group_diff keys xs =
     map (\<lambda>i. if keys ! i = NaN then NaN
               else case List.find (\<lambda>j. keys ! j = keys ! i) (rev [0 ..< i]) of
                      None \<Rightarrow> NaN
                    | Some j \<Rightarrow> cell_sub (xs ! i) (xs ! j))
       [0 ..< length xs]"

text \<open>Days since the first time stamp of the table.\<close>

definition day_column :: "column \<Rightarrow> column" where
  "day_column ts =
     map (\<lambda>c. case c of
                 Stamp t \<Rightarrow>
                   Num (real_of_int (t - min_list (concat (map (\<lambda>c. case c of Stamp u \<Rightarrow> [u] | _ \<Rightarrow> []) ts)))
                        / (60 * 60 * 24))
               | _ \<Rightarrow> NaN) ts"

definition battery_eol :: real where
  "battery_eol = 60"

definition current_battery_rate :: "column \<Rightarrow> column \<Rightarrow> column \<Rightarrow> column" where
  "current_battery_rate satellite_id batteryHealth day =
     map2 cell_div (fillna (Num 0) (group_diff satellite_id batteryHealth))
                   (fillna (Num 1) (group_diff satellite_id day))"

text \<open>Lines 11 to 29: the table with its rate column, without the rows of extreme rate.\<close>

definition filtered_rates :: "dataframe \<Rightarrow> error + dataframe" where
  "filtered_rates telemetry_data =
     (case get_col telemetry_data ''timestamp'' of Inl e \<Rightarrow> Inl e | Inr ts \<Rightarrow>
      case get_col telemetry_data ''satellite_id'' of Inl e \<Rightarrow> Inl e | Inr ids \<Rightarrow>
      case get_col telemetry_data ''batteryHealth'' of Inl e \<Rightarrow> Inl e | Inr bh \<Rightarrow>
        if \<not> numeric bh then Inl (TypeError ''batteryHealth'')
        else
          let df1 = set_col ''day'' (day_column ts) telemetry_data;
              df2 = set_col ''current_battery_rate''
                      (current_battery_rate ids bh (day_column ts)) df1;
              df3 = bool_index df2
                      (map (\<lambda>r. cell_greater r (- 1)) (the (map_of df2 ''current_battery_rate'')));
              df4 = bool_index df3
                      (map (\<lambda>r. cell_less r (1 / 10)) (the (map_of df3 ''current_battery_rate'')))
          in Inr df4)"

text \<open>
  Line 34: numpy evaluates \<open>(batteryHealth - battery_eol) / abs(current_battery_rate)\<close>
  for every row before \<open>np.where\<close> selects.  These are the numerators and denominators.
\<close>

definition eol_operands :: "dataframe \<Rightarrow> (cell \<times> cell) list" where
  "eol_operands df =
     zip (map (\<lambda>b. cell_sub b (Num battery_eol)) (the (map_of df ''batteryHealth'')))
         (map cell_abs (the (map_of df ''current_battery_rate'')))"

definition np_where :: "bool list \<Rightarrow> column \<Rightarrow> cell \<Rightarrow> column" where
  "np_where cond xs v = map2 (\<lambda>c x. if c then x else v) cond xs"

definition days_to_battery_eol :: "dataframe \<Rightarrow> column" where
  "days_to_battery_eol df =
     np_where (map (\<lambda>r. cell_less r 0) (the (map_of df ''current_battery_rate'')))
       (map (\<lambda>(a, b). cell_div a b) (eol_operands df)) (Num 500)"

definition lifetime_labels :: "dataframe \<Rightarrow> error + dataframe" where
  "lifetime_labels telemetry_data =
     (case filtered_rates telemetry_data of
        Inl e \<Rightarrow> Inl e
      | Inr df \<Rightarrow> Inr (set_col ''days_to_battery_eol'' (days_to_battery_eol df) df))"

text \<open>Two samples ten minutes apart, the battery one point lower in the second.\<close>

definition lifetime_example :: dataframe where
  "lifetime_example =
     [(''timestamp'', [Stamp 0, Stamp 600]),
      (''satellite_id'', [Str ''SAT-001'', Str ''SAT-001'']),
      (''batteryHealth'', [Num 95, Num 94])]"

section \<open>satellite_data_generator.py\<close>

text \<open>
  The generator draws five arrays of Gaussian noise; the model takes the draws as
  functions of the sample index.  \<open>datetime.now()\<close> minus the duration is the parameter
  \<open>start_date\<close>, in seconds.  The sensor values are idealised as reals; the positions
  of the fault windows, \<open>int(samples * 0.2)\<close> and the like, are computed as the code does,
  from the double product.
\<close>

record noise =
  power_noise :: "nat \<Rightarrow> real"
  temperature_noise :: "nat \<Rightarrow> real"
  battery_noise :: "nat \<Rightarrow> real"
  signal_noise :: "nat \<Rightarrow> real"
  memory_noise :: "nat \<Rightarrow> real"

definition clip :: "real \<Rightarrow> real \<Rightarrow> real \<Rightarrow> real" where
  "clip lo hi x = max lo (min hi x)"

text \<open>\<open>np.linspace(a, b, n)[i]\<close>.\<close>

definition linspace :: "real \<Rightarrow> real \<Rightarrow> nat \<Rightarrow> nat \<Rightarrow> real" where
  "linspace a b n i = (if n = 1 then a else a + real i * ((b - a) / real (n - 1)))"

text \<open>
  \<open>int(n * d)\<close> for an integer \<open>n\<close> and a double \<open>d\<close>: the exact product is rounded to the
  nearest double (a significand of 53 bits, ties to the even one) and then truncated.
  \<open>bit_length\<close> is the number of binary digits; \<open>double_round\<close> rounds a value of at least
  1; a product below 1 rounds up to 1 only within \<open>2 ^ - 54\<close> of it.
\<close>

fun bit_length :: "nat \<Rightarrow> nat" where
  "bit_length n = (if n = 0 then 0 else Suc (bit_length (n div 2)))"

definition round_half_even :: "real \<Rightarrow> int" where
  "round_half_even m =
     (let f = \<lfloor>m\<rfloor>; d = m - of_int f
      in if d < 1 / 2 then f else if 1 / 2 < d then f + 1 else if even f then f else f + 1)"

definition double_round :: "real \<Rightarrow> real" where
  "double_round q =
     (let e = bit_length (nat \<lfloor>q\<rfloor>)
      in of_int (round_half_even (q * 2 ^ 53 / 2 ^ e)) * 2 ^ e / 2 ^ 53)"

definition int_of_product :: "nat \<Rightarrow> real \<Rightarrow> nat" where
  "int_of_product n d =
     (let q = real n * d
      in if q < 1 then (if 1 - 1 / 2 ^ 54 \<le> q then 1 else 0) else nat \<lfloor>double_round q\<rfloor>)"

text \<open>
  The doubles that Python reads for the ten literals 0.01, 0.02, 0.03, 0.04, 0.05, 0.2,
  0.4, 0.6, 0.7 and 0.85 of the generator, by their percentage.
\<close>

definition double_percent :: "nat \<Rightarrow> real" where
  "double_percent percent =
     (if percent = 1 then 5764607523034235 / 576460752303423488
      else if percent = 2 then 5764607523034235 / 288230376151711744
      else if percent = 3 then 1080863910568919 / 36028797018963968
      else if percent = 4 then 5764607523034235 / 144115188075855872
      else if percent = 5 then 3602879701896397 / 72057594037927936
      else if percent = 20 then 3602879701896397 / 18014398509481984
      else if percent = 40 then 3602879701896397 / 9007199254740992
      else if percent = 60 then 5404319552844595 / 9007199254740992
      else if percent = 70 then 3152519739159347 / 4503599627370496
      else if percent = 85 then 7656119366529843 / 9007199254740992
      else real percent / 100)"

text \<open>\<open>int(samples * p)\<close> for the literal \<open>p\<close> of \<open>percent\<close> hundredths.\<close>

definition fraction_of :: "nat \<Rightarrow> nat \<Rightarrow> nat" where
  "fraction_of samples percent = int_of_product samples (double_percent percent)"

definition orbit_period_minutes :: nat where
  "orbit_period_minutes = 95"

definition orbit_position :: "nat \<Rightarrow> nat \<Rightarrow> real" where
  "orbit_position sample_interval_minutes i =
     real ((i * sample_interval_minutes) mod orbit_period_minutes) / real orbit_period_minutes"

definition in_eclipse_flag :: "nat \<Rightarrow> nat \<Rightarrow> real" where
  "in_eclipse_flag sample_interval_minutes i =
     (if 3 / 10 < orbit_position sample_interval_minutes i
         \<and> orbit_position sample_interval_minutes i < 7 / 10 then 1 else 0)"

text \<open>The channels before clipping (lines 41 to 68).\<close>

definition power_raw :: "nat \<Rightarrow> nat \<Rightarrow> noise \<Rightarrow> nat \<Rightarrow> real" where
  "power_raw samples interval ns i =
     90 - linspace 0 5 samples i + 5 * sin (orbit_position interval i * 2 * pi)
       + (- 20) * in_eclipse_flag interval i + power_noise ns i"

definition temperature_raw :: "nat \<Rightarrow> nat \<Rightarrow> noise \<Rightarrow> nat \<Rightarrow> real" where
  "temperature_raw samples interval ns i =
     25 + 10 * sin (orbit_position interval i * 2 * pi)
       + (1 / 10) * (power_raw samples interval ns i - 85) + temperature_noise ns i"

definition battery_raw :: "nat \<Rightarrow> noise \<Rightarrow> nat \<Rightarrow> real" where
  "battery_raw samples ns i = 95 - (2 / 100) * linspace 0 180 samples i + battery_noise ns i"

definition signal_raw :: "nat \<Rightarrow> noise \<Rightarrow> nat \<Rightarrow> real" where
  "signal_raw interval ns i =
     85 + 10 * sin (real i * (real interval / (4 * 60)) * 2 * pi) + signal_noise ns i"

definition memory_raw :: "nat \<Rightarrow> noise \<Rightarrow> nat \<Rightarrow> real" where
  "memory_raw interval ns i =
     60 + 15 * sin (real i * (real interval / (6 * 60)) * 2 * pi) + memory_noise ns i"

text \<open>
  \<open>df.loc[a:b, col]\<close> updated in place: the label slice takes both ends, so the rows
  \<open>a, ..., b\<close>.
\<close>

definition update_rows :: "nat \<Rightarrow> nat \<Rightarrow> (real \<Rightarrow> real) \<Rightarrow> real list \<Rightarrow> real list" where
  "update_rows a b f xs = map (\<lambda>i. if a \<le> i \<and> i \<le> b then f (xs ! i) else xs ! i) [0 ..< length xs]"

text \<open>The two loops that rewrite one row after the other (battery decay, memory leak).\<close>

definition battery_decay :: "nat \<Rightarrow> nat \<Rightarrow> real list \<Rightarrow> real list" where
  "battery_decay anomaly_start anomaly_duration xs =
     fold (\<lambda>i ys. ys[i := ys ! i * (997 / 1000) ^ (i - anomaly_start)])
       [anomaly_start ..< anomaly_start + anomaly_duration] xs"

definition memory_leak :: "nat \<Rightarrow> nat \<Rightarrow> real list \<Rightarrow> real list" where
  "memory_leak anomaly_start anomaly_duration xs =
     fold (\<lambda>i ys. ys[i := (if 0 < i then min 95 (ys ! (i - 1) + 1 / 2) else 80)])
       [anomaly_start ..< anomaly_start + anomaly_duration] xs"

text \<open>The channels as returned: clipped (lines 70 to 75), then the fault injected.\<close>

definition power_column :: "nat \<Rightarrow> nat \<Rightarrow> noise \<Rightarrow> real list" where
  "power_column samples interval ns =
     update_rows (fraction_of samples 20) (fraction_of samples 20 + fraction_of samples 3)
       (\<lambda>x. x * (7 / 10))
       (map (\<lambda>i. clip 0 100 (power_raw samples interval ns i)) [0 ..< samples])"

definition temperature_column :: "nat \<Rightarrow> nat \<Rightarrow> noise \<Rightarrow> real list" where
  "temperature_column samples interval ns =
     update_rows (fraction_of samples 40) (fraction_of samples 40 + fraction_of samples 2)
       (\<lambda>x. x + 15)
       (map (\<lambda>i. clip (- 10) 50 (temperature_raw samples interval ns i)) [0 ..< samples])"

definition battery_column :: "nat \<Rightarrow> noise \<Rightarrow> real list" where
  "battery_column samples ns =
     battery_decay (fraction_of samples 60) (fraction_of samples 5)
       (map (\<lambda>i. clip 0 100 (battery_raw samples ns i)) [0 ..< samples])"

definition signal_column :: "nat \<Rightarrow> nat \<Rightarrow> noise \<Rightarrow> real list" where
  "signal_column samples interval ns =
     update_rows (fraction_of samples 70) (fraction_of samples 70 + fraction_of samples 1)
       (\<lambda>x. x * (1 / 2))
       (map (\<lambda>i. clip 0 100 (signal_raw interval ns i)) [0 ..< samples])"

definition memory_column :: "nat \<Rightarrow> nat \<Rightarrow> noise \<Rightarrow> real list" where
  "memory_column samples interval ns =
     memory_leak (fraction_of samples 85) (fraction_of samples 4)
       (map (\<lambda>i. clip 0 100 (memory_raw interval ns i)) [0 ..< samples])"

text \<open>The anomaly events: every \<open>step\<close>-th sample of a fault window that meets \<open>cond\<close>.\<close>

record anomaly_event =
  ev_timestamp :: int
  ev_parameter :: string
  ev_value :: real
  ev_root_cause :: string
  ev_severity :: string

definition label_events ::
  "nat \<Rightarrow> nat \<Rightarrow> nat \<Rightarrow> (real \<Rightarrow> bool) \<Rightarrow> string \<Rightarrow> string \<Rightarrow> string \<Rightarrow> int list \<Rightarrow> real list
     \<Rightarrow> anomaly_event list" where
  "label_events anomaly_start anomaly_duration step cond param cause sev dates xs =
     map (\<lambda>i. \<lparr>ev_timestamp = dates ! i, ev_parameter = param, ev_value = xs ! i,
               ev_root_cause = cause, ev_severity = sev\<rparr>)
       (filter (\<lambda>i. i mod step = 0 \<and> cond (xs ! i))
          [anomaly_start ..< anomaly_start + anomaly_duration])"

text \<open>
  The loop over the anomaly table: the first row with the event's time stamp gets the
  flag, the parameter and the root cause; the two text columns come into being, with
  missing cells, at the first assignment.
\<close>

definition set_cell :: "string \<Rightarrow> nat \<Rightarrow> cell \<Rightarrow> dataframe \<Rightarrow> dataframe" where
  "set_cell name i v df =
     set_col name
       ((case map_of df name of None \<Rightarrow> replicate (len_df df) NaN | Some c \<Rightarrow> c)[i := v]) df"

definition flag_anomaly :: "anomaly_event \<Rightarrow> dataframe \<Rightarrow> dataframe" where
  "flag_anomaly ev df =
     (case first_match (the (map_of df ''timestamp'')) (Stamp (ev_timestamp ev)) of
        None \<Rightarrow> df
      | Some i \<Rightarrow>
          set_cell ''root_cause'' i (Str (ev_root_cause ev))
            (set_cell ''anomaly_parameter'' i (Str (ev_parameter ev))
              (set_cell ''anomaly'' i (Num 1) df)))"

definition generate_satellite_telemetry ::
  "nat \<Rightarrow> nat \<Rightarrow> string \<Rightarrow> int \<Rightarrow> noise \<Rightarrow> error + (dataframe \<times> anomaly_event list)" where
  "generate_satellite_telemetry days sample_interval_minutes satellite_id start_date ns =
     (if sample_interval_minutes = 0 then Inl ZeroDivisionError
      else
        let samples = (days * 24 * 60) div sample_interval_minutes;
            dates = map (\<lambda>i. start_date + 60 * int (i * sample_interval_minutes)) [0 ..< samples];
            pw = power_column samples sample_interval_minutes ns;
            tm = temperature_column samples sample_interval_minutes ns;
            bh = battery_column samples ns;
            sg = signal_column samples sample_interval_minutes ns;
            mu = memory_column samples sample_interval_minutes ns;
            anomalies =
              label_events (fraction_of samples 20) (fraction_of samples 3) 3 (\<lambda>x. True)
                ''power'' ''solar_panel_degradation'' ''high'' dates pw
              @ label_events (fraction_of samples 40) (fraction_of samples 2) 3 (\<lambda>x. True)
                ''temperature'' ''cooling_system_failure'' ''high'' dates tm
              @ label_events (fraction_of samples 60) (fraction_of samples 5) 3 (\<lambda>x. x < 75)
                ''batteryHealth'' ''battery_cell_degradation'' ''medium'' dates bh
              @ label_events (fraction_of samples 70) (fraction_of samples 1) 2 (\<lambda>x. True)
                ''signalStrength'' ''antenna_misalignment'' ''medium'' dates sg
              @ label_events (fraction_of samples 85) (fraction_of samples 4) 3 (\<lambda>x. 85 < x)
                ''memoryUsage'' ''memory_leak'' ''low'' dates mu;
            df = [(''timestamp'', map Stamp dates),
                  (''satellite_id'', replicate samples (Str satellite_id)),
                  (''orbit_position'',
                     map (\<lambda>i. Num (orbit_position sample_interval_minutes i)) [0 ..< samples]),
                  (''in_eclipse'',
                     map (\<lambda>i. Num (in_eclipse_flag sample_interval_minutes i)) [0 ..< samples]),
                  (''power'', map Num pw),
                  (''temperature'', map Num tm),
                  (''batteryHealth'', map Num bh),
                  (''signalStrength'', map Num sg),
                  (''memoryUsage'', map Num mu),
                  (''anomaly'', replicate samples (Num 0))]
        in Inr (fold flag_anomaly anomalies df, anomalies))"

text \<open>
  An example run: one day at 399 minutes per sample gives three samples; all noise draws
  are 0 but the temperature draw of sample 1, which is one and a half standard
  deviations.
\<close>

definition example_noise :: noise where
  "example_noise =
     \<lparr>power_noise = (\<lambda>i. 0), temperature_noise = (\<lambda>i. if i = 1 then 3 / 2 else 0),
      battery_noise = (\<lambda>i. 0), signal_noise = (\<lambda>i. 0), memory_noise = (\<lambda>i. 0)\<rparr>"

text \<open>The range of four of the channels, and the rows of the overheating fault.\<close>

definition percent :: "real \<Rightarrow> bool" where
  "percent x \<longleftrightarrow> 0 \<le> x \<and> x \<le> 100"

definition overheated :: "nat \<Rightarrow> nat \<Rightarrow> bool" where
  "overheated samples i \<longleftrightarrow>
     fraction_of samples 40 \<le> i \<and> i \<le> fraction_of samples 40 + fraction_of samples 2"

section \<open>train_anomaly_detection.py: class weights and the single-class fallback\<close>

text \<open>
  Lines 36 to 73.  The labels are integers.  \<open>np.random.choice(n, k, replace=False)\<close>
  raises ValueError when \<open>k > n\<close> and otherwise returns \<open>k\<close> different positions below
  \<open>n\<close>; the positions drawn are the parameter \<open>anomaly_indices\<close>.  The result is the label
  array used for fitting, the class weights (or \<open>None\<close>) and the lines printed.
\<close>

datatype message =
    Text string
  | ClassWeights "real list"
  | SyntheticClassWeights "real list"
  | ValueCounts "nat list"

definition np_unique :: "int list \<Rightarrow> int list" where
  "np_unique y = sort (remdups y)"

text \<open>sklearn's balanced weights: \<open>n_samples / (n_classes * count)\<close> for each class.\<close>

definition compute_class_weight :: "int list \<Rightarrow> real list" where
  "compute_class_weight y =
     map (\<lambda>c. real (length y) / (real (length (np_unique y)) * real (count_list y c)))
       (np_unique y)"

definition bincount :: "int list \<Rightarrow> nat list" where
  "bincount y =
     (if y = [] then [] else map (\<lambda>v. count_list y (int v)) [0 ..< Suc (nat (fold max y 0))])"

definition valid_choice :: "nat \<Rightarrow> nat \<Rightarrow> nat list \<Rightarrow> bool" where
  "valid_choice n k idx \<longleftrightarrow> length idx = k \<and> distinct idx \<and> list_all (\<lambda>i. i < n) idx"

definition handle_class_imbalance ::
  "int list \<Rightarrow> nat list \<Rightarrow> error + (int list \<times> real list option \<times> message list)" where
  "handle_class_imbalance y_train anomaly_indices =
     (if 1 < length (np_unique y_train)
      then Inr (y_train, Some (compute_class_weight y_train),
                [ClassWeights (compute_class_weight y_train)])
      else
        let warning =
              [Text ''Warning: Only one class found in training data! This will not work for binary classification.'',
               Text ''Please ensure your data has both normal and anomaly examples.'']
        in if list_all (\<lambda>v. v = 0) y_train
           then
             let synthetic_count = max 5 (length y_train div 20)
             in if length y_train < synthetic_count
                then Inl (ValueError ''Cannot take a larger sample than population'')
                else
                  let synthetic_y_train = fold (\<lambda>i ys. ys[i := 1]) anomaly_indices y_train
                  in Inr (synthetic_y_train, Some (compute_class_weight synthetic_y_train),
                          warning
                          @ [Text ''Generating synthetic anomaly examples for training...'',
                             SyntheticClassWeights (compute_class_weight synthetic_y_train),
                             ValueCounts (bincount synthetic_y_train)])
           else Inr (y_train, None, warning))"

section \<open>convert_model.py and prepare_for_web.py: the exporters\<close>

text \<open>
  Both scripts load the trained sequence model and write the sidecar
  \<open>web_models/model_metadata.json\<close>.  What the model file holds is the parameter
  \<open>input_shape\<close> (a dimension is an integer or \<open>None\<close>); whether loading, saving and
  converting succeed are parameters too.
\<close>

datatype json =
    JNull
  | JInt int
  | JNum real
  | JStr string
  | JArr "json list"
  | JObj "(string \<times> json) list"

fun json_get :: "string \<Rightarrow> json \<Rightarrow> json option" where
  "json_get k (JObj kvs) = map_of kvs k"
| "json_get k _ = None"

fun dim_json :: "int option \<Rightarrow> json" where
  "dim_json None = JNull"
| "dim_json (Some d) = JInt d"

definition root_cause_labels :: "string list" where
  "root_cause_labels =
     [''solar_panel_degradation'', ''cooling_system_failure'', ''battery_cell_degradation'',
      ''antenna_misalignment'', ''memory_leak'']"

text \<open>
  convert_model.py has no exception handler: a failure to load or to convert ends the
  run before the sidecar is written.  The result is the sidecar and the lines printed.
\<close>

definition convert_model ::
  "bool \<Rightarrow> bool \<Rightarrow> int option list \<Rightarrow> error + (json \<times> string list)" where
  "convert_model load_ok convert_ok input_shape =
     (if \<not> load_ok then Inl (OtherException ''load_model'')
      else if \<not> convert_ok then Inl (OtherException ''convert_keras'')
      else Inr
        (JObj [(''anomaly_detection'',
                  JObj [(''type'', JStr ''tensorflow''),
                        (''input_shape'', JArr (map dim_json (tl input_shape))),
                        (''threshold'', JNum (1 / 2))]),
               (''root_cause'', JObj [(''causes'', JArr (map JStr root_cause_labels))]),
               (''version'', JStr ''1.0'')],
         [''Model conversion completed successfully!'', ''Input shape'', ''Output shape'']))"

text \<open>
  prepare_for_web.py runs inside \<open>try\<close>: any exception before the sidecar is written
  (loading, saving, or an input shape with fewer than three dimensions) is printed and
  no sidecar is written; a failure of the automatic conversion afterwards only prints
  the manual instructions.  The result is the sidecar, if written, and the lines printed.
\<close>

definition prepare_for_web ::
  "bool \<Rightarrow> bool \<Rightarrow> bool \<Rightarrow> int option list \<Rightarrow> json option \<times> string list" where
  "prepare_for_web load_ok save_ok conversion_ok input_shape =
     (if \<not> load_ok then (None, [''Loading the anomaly detection model...'', ''Error''])
      else if \<not> save_ok
      then (None, [''Loading the anomaly detection model...'',
                   ''Saving the model in SavedModel format first...'', ''Error''])
      else if length input_shape < 3
      then (None, [''Loading the anomaly detection model...'',
                   ''Saving the model in SavedModel format first...'', ''Error''])
      else
        (Some (JObj [(''anomaly_detection'',
                        JObj [(''type'', JStr ''tensorflow''),
                              (''input_shape'',
                                 JArr [dim_json (input_shape ! 1), dim_json (input_shape ! 2)]),
                              (''threshold'', JNum (1 / 2))]),
                     (''version'', JStr ''1.0''),
                     (''description'', JStr ''Anomaly detection model for satellite telemetry'')]),
         [''Loading the anomaly detection model...'',
          ''Saving the model in SavedModel format first...'',
          ''Model metadata saved to web_models/model_metadata.json'',
          ''To convert to TensorFlow.js format, run the following command:'',
          ''tensorflowjs_converter --input_format=keras saved_model_format web_models/anomaly_detection'',
          ''Attempting automatic conversion...'']
         @ (if conversion_ok then [''Conversion successful!'']
            else [''Automatic conversion failed'',
                  ''Please run the tensorflowjs_converter command manually after fixing the dependency issues.''])))"

text \<open>The field \<open>inner\<close> of the object under \<open>outer\<close>.\<close>

definition json_path :: "string \<Rightarrow> string \<Rightarrow> json \<Rightarrow> json option" where
  "json_path outer inner j = Option.bind (json_get outer j) (json_get inner)"

text \<open>Three engineered rows with one cause column, for the examples of the builders.\<close>

definition window_example :: dataframe where
  "window_example =
     [(''timestamp'', [Stamp 0, Stamp 600, Stamp 1200]),
      (''power'', [Num 90, Num 63, Num 91]),
      (''cause_memory_leak'', [Num 0, Num 1, Num 0]),
      (''anomaly'', [Num 0, Num 1, Num 0])]"

section \<open>Properties of the dataset builders\<close>

lemma ts_loop_ok:
  assumes "\<And>i. i \<in> set idxs \<Longrightarrow> \<exists>w v. ts_step df L H i = Inr (w, v)"
  shows "ts_loop df L H idxs X y =
           Inr (X @ map (\<lambda>i. fst (projr (ts_step df L H i))) idxs,
                y @ map (\<lambda>i. snd (projr (ts_step df L H i))) idxs)"
  using assms
proof (induction idxs arbitrary: X y)
  case Nil
  then show ?case by simp
next
  case (Cons i rest)
  from Cons.prems obtain w v where s: "ts_step df L H i = Inr (w, v)"
    by (meson list.set_intros(1))
  have "ts_loop df L H rest (X @ [w]) (y @ [v]) =
          Inr ((X @ [w]) @ map (\<lambda>i. fst (projr (ts_step df L H i))) rest,
               (y @ [v]) @ map (\<lambda>i. snd (projr (ts_step df L H i))) rest)"
    by (rule Cons.IH) (simp add: Cons.prems)
  with s show ?case by simp
qed


lemma ts_loop_Inr:
  "ts_loop df L H idxs X0 y0 = Inr (X, y) \<Longrightarrow>
     X = X0 @ map (\<lambda>i. rows_values df (feature_columns df) i (i + L)) idxs"
proof (induction idxs arbitrary: X0 y0)
  case Nil
  then show ?case by simp
next
  case (Cons i rest)
  from Cons.prems obtain v where
    "ts_loop df L H rest (X0 @ [rows_values df (feature_columns df) i (i + L)]) (y0 @ [v])
       = Inr (X, y)"
    by (auto simp: ts_step_def Let_def split: sum.splits)
  from Cons.IH [OF this] show ?case by simp
qed

lemma ts_step_in_range:
  assumes a: "map_of df ''anomaly'' = Some a" and len: "length a = len_df df"
    and pos: "0 < L + H" and i: "i + L + H \<le> len_df df"
  shows "ts_step df L H i =
           Inr (rows_values df (feature_columns df) i (i + L), a ! (i + L + H - 1))"
proof -
  have k: "int i + int L + int H - 1 = int (i + L + H - 1)"
    using pos by linarith
  have "i + L + H - 1 < length a"
    using pos i len by linarith
  then have "iloc a (int (i + L + H - 1)) = Inr (a ! (i + L + H - 1))"
    by (simp add: iloc_def Let_def)
  then show ?thesis
    using a by (simp add: ts_step_def get_col_def target_column_def k Let_def)
qed

text \<open>
  C4.  For a table of \<open>n\<close> rows that has the anomaly column, window length \<open>L\<close> and
  horizon \<open>H\<close> (not both zero), \<open>create_time_series_dataset\<close> returns without error
  exactly \<open>max 0 (n - L - H + 1)\<close> windows and as many labels (none when \<open>n < L + H\<close>);
  the \<open>k\<close>-th window holds the rows \<open>k, ..., k + L - 1\<close> and its label is the anomaly flag
  of row \<open>k + L + H - 1\<close>.
\<close>

theorem create_time_series_dataset_count_and_labels:
  assumes a: "map_of df ''anomaly'' = Some a" and len: "length a = len_df df"
    and pos: "0 < L + H"
  shows "\<exists>X y. create_time_series_dataset df L H = Inr (X, y)
           \<and> int (length X) = max 0 (int (len_df df) - int L - int H + 1)
           \<and> length y = length X
           \<and> (\<forall>k < length X. X ! k = rows_values df (feature_columns df) k (k + L)
                 \<and> y ! k = a ! (k + L + H - 1))"
proof -
  define m where "m = nat (int (len_df df) - int L - int H + 1)"
  have step: "ts_step df L H i =
                Inr (rows_values df (feature_columns df) i (i + L), a ! (i + L + H - 1))"
    if "i < m" for i
  proof (rule ts_step_in_range [OF a len pos])
    show "i + L + H \<le> len_df df"
      using that unfolding m_def by linarith
  qed
  have "ts_loop df L H [0 ..< m] [] [] =
          Inr ([] @ map (\<lambda>i. fst (projr (ts_step df L H i))) [0 ..< m],
               [] @ map (\<lambda>i. snd (projr (ts_step df L H i))) [0 ..< m])"
    by (rule ts_loop_ok) (simp add: step)
  then have res: "create_time_series_dataset df L H =
          Inr (map (\<lambda>i. fst (projr (ts_step df L H i))) [0 ..< m],
               map (\<lambda>i. snd (projr (ts_step df L H i))) [0 ..< m])"
    by (simp add: create_time_series_dataset_def m_def)
  have "int m = max 0 (int (len_df df) - int L - int H + 1)"
    by (simp add: m_def)
  with res show ?thesis
    by (simp add: step)
qed

theorem create_time_series_dataset_count_and_labels_witness:
  "(\<exists>X y. create_time_series_dataset
        [(''power'', [Num 1, Num 2, Num 3, Num 4]),
         (''anomaly'', [Num 0, Num 0, Num 1, Num 0])] 2 1 = Inr (X, y)
      \<and> length X = 2 \<and> length y = 2 \<and> y ! 0 = Num 1 \<and> y ! 1 = Num 0)
   \<and> create_time_series_dataset
        [(''power'', [Num 1, Num 2, Num 3, Num 4]),
         (''anomaly'', [Num 0, Num 0, Num 1, Num 0])] 2 1
      = Inr ([[[Num 1], [Num 2]], [[Num 2], [Num 3]]], [Num 1, Num 0])
   \<and> create_time_series_dataset
        [(''power'', [Num 1, Num 2]), (''anomaly'', [Num 0, Num 1])] 2 1 = Inr ([], [])"
proof -
  let ?df = "[(''power'', [Num 1, Num 2, Num 3, Num 4]),
              (''anomaly'', [Num 0, Num 0, Num 1, Num 0])]"
  have a: "map_of ?df ''anomaly'' = Some [Num 0, Num 0, Num 1, Num 0]" by simp
  have l: "length [Num 0, Num 0, Num 1, Num 0] = len_df ?df" by (simp add: len_df_def)
  have p: "0 < (2::nat) + 1" by simp
  from create_time_series_dataset_count_and_labels [OF a l p]
  obtain X y where r: "create_time_series_dataset ?df 2 1 = Inr (X, y)"
    and n: "int (length X) = max 0 (int (len_df ?df) - int 2 - int 1 + 1)"
    and ly: "length y = length X"
    and lab: "\<forall>k < length X. y ! k = [Num 0, Num 0, Num 1, Num 0] ! (k + 2 + 1 - 1)"
    by blast
  from n have n2: "length X = 2" by (simp add: len_df_def)
  from lab n2 have "y ! 0 = Num 1" "y ! 1 = Num 0" by simp_all
  with r n2 ly have general: "\<exists>X y. create_time_series_dataset ?df 2 1 = Inr (X, y)
      \<and> length X = 2 \<and> length y = 2 \<and> y ! 0 = Num 1 \<and> y ! 1 = Num 0"
    by simp
  have first: "create_time_series_dataset ?df 2 1
                 = Inr ([[[Num 1], [Num 2]], [[Num 2], [Num 3]]], [Num 1, Num 0])"
    by (simp add: create_time_series_dataset_def len_df_def ts_step_def get_col_def
        target_column_def iloc_def rows_values_def feature_columns_def columns_def
        excluded_columns_def Let_def upt_conv_Cons numeral_2_eq_2 numeral_3_eq_3)
  have second: "create_time_series_dataset
      [(''power'', [Num 1, Num 2]), (''anomaly'', [Num 0, Num 1])] 2 1 = Inr ([], [])"
    by (simp add: create_time_series_dataset_def len_df_def)
  from general first second show ?thesis by blast
qed

lemma len_df_bool_index_all_False:
  "Num 1 \<notin> set a \<Longrightarrow> len_df (bool_index df (map (\<lambda>c. c = Num 1) a)) = 0"
proof -
  assume "Num 1 \<notin> set a"
  then have "filter snd (zip c (map (\<lambda>c. c = Num 1) a)) = []" for c :: column
    by (auto simp: filter_empty_conv dest: set_zip_rightD)
  then show ?thesis
    by (cases df) (auto simp: len_df_def bool_index_def)
qed

text \<open>
  C7.  For a table that has the anomaly column, \<open>create_root_cause_dataset\<close> returns
  the empty-result signal \<open>(None, None)\<close> (after printing its message) and raises no
  exception when no row is flagged anomalous or when no column name starts with
  \<open>cause_\<close>.
\<close>

theorem create_root_cause_dataset_empty_signal:
  assumes "map_of df ''anomaly'' = Some a"
    and "Num 1 \<notin> set a \<or> (\<forall>col \<in> set (columns df). \<not> prefix ''cause_'' col)"
  shows "create_root_cause_dataset df =
           Inr (None, [''No anomalies found for root cause analysis dataset''])"
proof -
  from assms(2) have
    "empty_df (bool_index df (map (\<lambda>c. c = Num 1) a)) \<or> target_columns df = []"
  proof
    assume "Num 1 \<notin> set a"
    then show ?thesis
      by (simp add: empty_df_def len_df_bool_index_all_False)
  next
    assume "\<forall>col \<in> set (columns df). \<not> prefix ''cause_'' col"
    then show ?thesis
      by (simp add: target_columns_def filter_empty_conv)
  qed
  with assms(1) show ?thesis
    by (auto simp: create_root_cause_dataset_def get_col_def Let_def)
qed

theorem create_root_cause_dataset_empty_signal_witness:
  "create_root_cause_dataset
     [(''power'', [Num 90, Num 63]), (''anomaly'', [Num 0, Num 0]),
      (''cause_memory_leak'', [Num 0, Num 0])]
     = Inr (None, [''No anomalies found for root cause analysis dataset''])
   \<and> create_root_cause_dataset [(''power'', [Num 90, Num 63]), (''anomaly'', [Num 0, Num 1])]
     = Inr (None, [''No anomalies found for root cause analysis dataset''])"
proof -
  have "create_root_cause_dataset
     [(''power'', [Num 90, Num 63]), (''anomaly'', [Num 0, Num 0]),
      (''cause_memory_leak'', [Num 0, Num 0])]
     = Inr (None, [''No anomalies found for root cause analysis dataset''])"
    by (rule create_root_cause_dataset_empty_signal [where a = "[Num 0, Num 0]"]) simp_all
  moreover have "create_root_cause_dataset
     [(''power'', [Num 90, Num 63]), (''anomaly'', [Num 0, Num 1])]
     = Inr (None, [''No anomalies found for root cause analysis dataset''])"
    by (rule create_root_cause_dataset_empty_signal [where a = "[Num 0, Num 1]"])
       (simp_all add: columns_def)
  ultimately show ?thesis by simp
qed

lemma feature_column_position:
  assumes "col \<in> set (columns df)" "col \<notin> set excluded_columns"
  shows "\<exists>j < length (feature_columns df). feature_columns df ! j = col"
proof -
  from assms have "col \<in> set (feature_columns df)"
    by (simp add: feature_columns_def)
  then show ?thesis
    by (auto simp: in_set_conv_nth)
qed

lemma cause_not_excluded: "''cause_'' @ s \<notin> set excluded_columns"
  by (simp add: excluded_columns_def)

lemma create_time_series_dataset_result:
  assumes a: "map_of df ''anomaly'' = Some a" and len: "length a = len_df df"
    and pos: "0 < L + H"
  shows "create_time_series_dataset df L H =
           Inr (map (\<lambda>i. rows_values df (feature_columns df) i (i + L))
                  [0 ..< nat (int (len_df df) - int L - int H + 1)],
                map (\<lambda>i. a ! (i + L + H - 1))
                  [0 ..< nat (int (len_df df) - int L - int H + 1)])"
proof -
  define m where "m = nat (int (len_df df) - int L - int H + 1)"
  have step: "ts_step df L H i =
                Inr (rows_values df (feature_columns df) i (i + L), a ! (i + L + H - 1))"
    if "i < m" for i
  proof (rule ts_step_in_range [OF a len pos])
    show "i + L + H \<le> len_df df"
      using that unfolding m_def by linarith
  qed
  have "ts_loop df L H [0 ..< m] [] [] =
          Inr ([] @ map (\<lambda>i. fst (projr (ts_step df L H i))) [0 ..< m],
               [] @ map (\<lambda>i. snd (projr (ts_step df L H i))) [0 ..< m])"
    by (rule ts_loop_ok) (simp add: step)
  then show ?thesis
    unfolding create_time_series_dataset_def m_def [symmetric] by (simp add: step)
qed

text \<open>
  C10.  \<open>create_time_series_dataset\<close> leaves exactly the columns timestamp,
  satellite_id, anomaly, anomaly_parameter and root_cause out of the feature matrix.
  So for a table with the anomaly column and a one-hot label column \<open>cause_...\<close>, it
  returns its \<open>max 0 (n - L - H + 1)\<close> windows, each of \<open>L\<close> rows with one cell per
  feature column, and the label column is one of the feature columns: at its position
  \<open>j\<close>, row \<open>r\<close> of the \<open>k\<close>-th window holds the label cell of table row \<open>k + r\<close>.
\<close>

theorem cause_columns_are_window_features:
  assumes a: "map_of df ''anomaly'' = Some a" and len: "length a = len_df df"
    and pos: "0 < L + H"
    and c: "map_of df (''cause_'' @ s) = Some c"
  shows "(\<forall>col. col \<in> set (feature_columns df) \<longleftrightarrow>
            col \<in> set (columns df) \<and>
            col \<notin> {''timestamp'', ''satellite_id'', ''anomaly'', ''anomaly_parameter'',
                    ''root_cause''})
         \<and> (\<exists>X y j. create_time_series_dataset df L H = Inr (X, y)
              \<and> int (length X) = max 0 (int (len_df df) - int L - int H + 1)
              \<and> j < length (feature_columns df) \<and> feature_columns df ! j = ''cause_'' @ s
              \<and> (\<forall>k < length X. length (X ! k) = L
                    \<and> (\<forall>r < L. length (X ! k ! r) = length (feature_columns df)
                          \<and> X ! k ! r ! j = c ! (k + r))))"
proof -
  have excl: "\<forall>col. col \<in> set (feature_columns df) \<longleftrightarrow>
            col \<in> set (columns df) \<and>
            col \<notin> {''timestamp'', ''satellite_id'', ''anomaly'', ''anomaly_parameter'',
                    ''root_cause''}"
    by (auto simp: feature_columns_def excluded_columns_def)
  define nm where "nm = ''cause_'' @ s"
  define fc where "fc = feature_columns df"
  define m where "m = nat (int (len_df df) - int L - int H + 1)"
  define X where "X = map (\<lambda>i. rows_values df fc i (i + L)) [0 ..< m]"
  define y where "y = map (\<lambda>i. a ! (i + L + H - 1)) [0 ..< m]"
  from c have "nm \<in> set (columns df)"
    unfolding nm_def by (auto simp: columns_def dest: map_of_SomeD intro: rev_image_eqI)
  from feature_column_position [OF this] cause_not_excluded [of s]
  obtain j where j: "j < length fc" and fj: "fc ! j = nm"
    unfolding nm_def fc_def by blast
  have res: "create_time_series_dataset df L H = Inr (X, y)"
    unfolding X_def y_def m_def fc_def by (rule create_time_series_dataset_result [OF a len pos])
  have count: "int (length X) = max 0 (int (len_df df) - int L - int H + 1)"
    by (simp add: X_def m_def)
  have win: "length (X ! k) = L
               \<and> (\<forall>r < L. length (X ! k ! r) = length fc \<and> X ! k ! r ! j = c ! (k + r))"
    if "k < length X" for k
  proof -
    from that have k: "k < m" by (simp add: X_def)
    then have fit: "k + L \<le> len_df df" unfolding m_def by linarith
    from k have Xk: "X ! k = rows_values df fc k (k + L)" by (simp add: X_def)
    from fit have rng: "min (k + L) (len_df df) = k + L" by simp
    have l: "length (X ! k) = L"
      unfolding Xk rows_values_def rng by simp
    have "length (X ! k ! r) = length fc \<and> X ! k ! r ! j = c ! (k + r)" if "r < L" for r
      using that j fj c unfolding Xk rows_values_def rng nm_def by simp
    with l show ?thesis by blast
  qed
  have "\<exists>X y j. create_time_series_dataset df L H = Inr (X, y)
              \<and> int (length X) = max 0 (int (len_df df) - int L - int H + 1)
              \<and> j < length fc \<and> fc ! j = nm
              \<and> (\<forall>k < length X. length (X ! k) = L
                    \<and> (\<forall>r < L. length (X ! k ! r) = length fc \<and> X ! k ! r ! j = c ! (k + r)))"
    using res count j fj win by blast
  with excl show ?thesis
    unfolding nm_def fc_def by (rule conjI)
qed

theorem cause_columns_are_window_features_witness:
  "\<exists>X y j. create_time_series_dataset window_example 2 1 = Inr (X, y)
      \<and> length X = 1 \<and> length (X ! 0) = 2
      \<and> feature_columns window_example ! j = ''cause_memory_leak''
      \<and> X ! 0 ! 0 ! j = Num 0 \<and> X ! 0 ! 1 ! j = Num 1"
proof -
  define c where "c = [Num 0, Num 1, Num 0 :: cell]"
  define nm where "nm = ''cause_'' @ ''memory_leak''"
  have a: "map_of window_example ''anomaly'' = Some [Num 0, Num 1, Num 0]"
    by (simp add: window_example_def)
  have len: "length [Num 0, Num 1, Num 0 :: cell] = len_df window_example"
    by (simp add: window_example_def len_df_def)
  have pos: "0 < (2::nat) + 1" by simp
  have cm: "map_of window_example (''cause_'' @ ''memory_leak'') = Some c"
    by (simp add: window_example_def c_def)
  note inst = cause_columns_are_window_features
    [OF a len pos cm, THEN conjunct2, folded nm_def]
  from inst obtain X y j where
    res: "create_time_series_dataset window_example 2 1 = Inr (X, y)" and
    n: "int (length X) = max 0 (int (len_df window_example) - int 2 - int 1 + 1)" and
    fj: "feature_columns window_example ! j = nm" and
    w: "\<forall>k < length X. length (X ! k) = 2
          \<and> (\<forall>r < 2. length (X ! k ! r) = length (feature_columns window_example)
                \<and> X ! k ! r ! j = c ! (k + r))"
    by blast
  from n have l: "length X = 1"
    by (simp add: window_example_def len_df_def)
  with w have w0: "length (X ! 0) = 2" and "\<forall>r < 2. X ! 0 ! r ! j = c ! (0 + r)"
    by simp_all
  then have "X ! 0 ! 0 ! j = c ! 0" "X ! 0 ! 1 ! j = c ! 1"
    by simp_all
  then have "X ! 0 ! 0 ! j = Num 0" "X ! 0 ! 1 ! j = Num 1"
    by (simp_all add: c_def)
  with res l w0 fj show ?thesis
    unfolding nm_def by auto
qed

section \<open>Properties of preprocess_satellite_data\<close>

subsection \<open>The eclipse counter\<close>

lemma length_diff: "length (diff xs) = length xs"
  by (cases xs) (simp_all add: diff_def)

lemma diff_nth:
  "i < length xs \<Longrightarrow> diff xs ! i = (if i = 0 then NaN else cell_sub (xs ! i) (xs ! (i - 1)))"
  by (cases xs; cases i) (simp_all add: diff_def)

lemma length_eclipse_change: "length (eclipse_change e) = length e"
  by (simp add: eclipse_change_def fillna_def length_diff)

lemma eclipse_change_Num_nth:
  "i < length fs \<Longrightarrow>
     eclipse_change (map Num fs) ! i = (if i = 0 then Num 0 else Num (fs ! i - fs ! (i - 1)))"
  by (simp add: eclipse_change_def fillna_def length_diff diff_nth)

lemma length_eclipse_scan: "length (eclipse_scan c cs) = length cs"
  by (induction cs arbitrary: c) (simp_all add: Let_def)

lemma eclipse_scan_nth:
  "i < length cs \<Longrightarrow>
     eclipse_scan c cs ! i =
       (if cs ! i \<noteq> Num 0 then 0 else (if i = 0 then c else eclipse_scan c cs ! (i - 1)) + 1)"
proof (induction cs arbitrary: c i)
  case Nil
  then show ?case by simp
next
  case (Cons x cs)
  show ?case
  proof (cases i)
    case 0
    then show ?thesis by (simp add: Let_def)
  next
    case (Suc j)
    with Cons.prems have j: "j < length cs" by simp
    show ?thesis
      using Cons.IH [OF j] Suc by (cases j) (simp_all add: Let_def)
  qed
qed

lemma eclipse_scan_nonneg:
  "0 \<le> c \<Longrightarrow> k \<in> set (eclipse_scan c cs) \<Longrightarrow> 0 \<le> k"
proof (induction cs arbitrary: c)
  case Nil
  then show ?case by simp
next
  case (Cons x cs)
  let ?c' = "if x \<noteq> Num 0 then 0 else c + 1"
  from Cons.prems(1) have c': "0 \<le> ?c'" by simp
  from Cons.prems(2) have "k = ?c' \<or> k \<in> set (eclipse_scan ?c' cs)"
    by (simp add: Let_def)
  then show ?case
    using c' Cons.IH [OF c'] by blast
qed

text \<open>
  C2 (as amended).  For every sequence of eclipse flags, the counter stored in
  \<open>time_since_eclipse_change\<close> has the length of the input; it is 0 exactly at the
  rows \<open>i > 0\<close> whose flag differs from the flag of row \<open>i - 1\<close>, and at every other row
  it is the counter of the row before plus 1, where the counter before row 0 is 0.  So
  row 0 holds 1, not 0.
\<close>

theorem time_since_eclipse_change_rule:
  assumes i: "i < length flags"
  shows "length (time_since_eclipse_change (map Num flags)) = length flags
       \<and> (time_since_eclipse_change (map Num flags) ! i = 0
            \<longleftrightarrow> 0 < i \<and> flags ! i \<noteq> flags ! (i - 1))
       \<and> (\<not> (0 < i \<and> flags ! i \<noteq> flags ! (i - 1)) \<longrightarrow>
            time_since_eclipse_change (map Num flags) ! i =
              (if i = 0 then 0 else time_since_eclipse_change (map Num flags) ! (i - 1)) + 1)"
proof -
  define t where "t = time_since_eclipse_change (map Num flags)"
  let ?c = "eclipse_change (map Num flags)"
  have len: "length t = length flags"
    by (simp add: t_def time_since_eclipse_change_def length_eclipse_scan length_eclipse_change)
  have ic: "i < length ?c" using i by (simp add: length_eclipse_change)
  have ch: "?c ! i \<noteq> Num 0 \<longleftrightarrow> 0 < i \<and> flags ! i \<noteq> flags ! (i - 1)"
    using i by (simp add: eclipse_change_Num_nth)
  have step: "t ! i = (if ?c ! i \<noteq> Num 0 then 0 else (if i = 0 then 0 else t ! (i - 1)) + 1)"
    unfolding t_def time_since_eclipse_change_def by (rule eclipse_scan_nth [OF ic])
  have prev: "0 \<le> (if i = 0 then 0 else t ! (i - 1))"
  proof (cases "i = 0")
    case True then show ?thesis by simp
  next
    case False
    with i len have "t ! (i - 1) \<in> set t" by simp
    then have "0 \<le> t ! (i - 1)"
      unfolding t_def time_since_eclipse_change_def by (rule eclipse_scan_nonneg [rotated]) simp
    with False show ?thesis by simp
  qed
  from len ch step prev show ?thesis
    unfolding t_def [symmetric] by auto
qed

theorem time_since_eclipse_change_rule_witness:
  "time_since_eclipse_change (map Num [0, 0, 1, 1, 1, 0]) ! 2 = 0
   \<and> time_since_eclipse_change (map Num [0, 0, 1, 1, 1, 0]) ! 0 = 1
   \<and> time_since_eclipse_change (map Num [0, 0, 1, 1, 1, 0]) = [1, 2, 0, 1, 2, 0]"
proof -
  have a: "(2::nat) < length [0, 0, 1, 1, 1, 0 :: real]" by simp
  have b: "(0::nat) < length [0, 0, 1, 1, 1, 0 :: real]" by simp
  have "time_since_eclipse_change (map Num [0, 0, 1, 1, 1, 0]) ! 2 = 0"
    using time_since_eclipse_change_rule [OF a] by simp
  moreover have "time_since_eclipse_change (map Num [0, 0, 1, 1, 1, 0]) ! 0 = 1"
    using time_since_eclipse_change_rule [OF b] by simp
  moreover have "time_since_eclipse_change (map Num [0, 0, 1, 1, 1, 0]) = [1, 2, 0, 1, 2, 0]"
    by (simp add: time_since_eclipse_change_def eclipse_change_def fillna_def diff_def Let_def)
  ultimately show ?thesis by blast
qed

theorem time_since_eclipse_change_example_differs:
  "time_since_eclipse_change (map Num [0, 0, 1, 1, 1, 0]) \<noteq> [0, 1, 0, 1, 2, 0]"
  by (simp add: time_since_eclipse_change_def eclipse_change_def fillna_def diff_def Let_def)

subsection \<open>The columns of the engineered table\<close>

lemma map_of_set_col: "map_of (set_col n c df) = (map_of df)(n \<mapsto> c)"
  by (simp add: set_col_def update_conv')

lemma add_time_features_Inr:
  "add_time_features df = Inr df' \<Longrightarrow>
     \<exists>ts. map_of df ''timestamp'' = Some ts
        \<and> map_of df' = (map_of df)(''hour'' \<mapsto> map hour ts, ''day_of_week'' \<mapsto> map day_of_week ts)"
  by (auto simp: add_time_features_def get_col_def map_of_set_col split: option.splits if_splits)

lemma add_param_features_Inr:
  "add_param_features p df = Inr df' \<Longrightarrow>
     \<exists>x. map_of df p = Some x \<and> numeric x
        \<and> map_of df' = (map_of df)
             (p @ ''_delta'' \<mapsto> fillna (Num 0) (diff x),
              p @ ''_mean_1h'' \<mapsto> fillna_series x (rolling_mean window_size x),
              p @ ''_std_1h'' \<mapsto> fillna (Num 0) (rolling_std window_size x),
              p @ ''_deviation'' \<mapsto> map2 cell_sub x (fillna_series x (rolling_mean window_size x)))"
  by (auto simp: add_param_features_def get_col_def map_of_set_col Let_def
      split: option.splits if_splits)

lemma fold_err_Cons_Inr:
  "fold_err f (x # xs) s = Inr r \<Longrightarrow> \<exists>s'. f x s = Inr s' \<and> fold_err f xs s' = Inr r"
  by (simp split: sum.splits)

lemma add_interaction_features_Inr:
  "add_interaction_features df = Inr df' \<Longrightarrow>
     \<exists>pw tm bh. map_of df ''power'' = Some pw \<and> map_of df ''temperature'' = Some tm
        \<and> map_of df ''batteryHealth'' = Some bh
        \<and> map_of df' = (map_of df)(''power_temp_ratio'' \<mapsto> ratio pw tm,
                                    ''battery_power_ratio'' \<mapsto> ratio bh pw)"
  by (auto simp: add_interaction_features_def get_col_def map_of_set_col split: option.splits)

lemma add_eclipse_features_Inr:
  "add_eclipse_features df = Inr df' \<Longrightarrow>
     \<exists>e. map_of df ''in_eclipse'' = Some e \<and> numeric e
        \<and> map_of df' = (map_of df)
             (''eclipse_change'' \<mapsto> eclipse_change e,
              ''time_since_eclipse_change'' \<mapsto>
                 map (\<lambda>k. Num (real_of_int k)) (time_since_eclipse_change e))"
  by (auto simp: add_eclipse_features_def get_col_def map_of_set_col split: option.splits if_splits)

lemma mark_anomaly_other:
  "\<not> prefix ''cause_'' k \<Longrightarrow> map_of (mark_anomaly row df) k = map_of df k"
  by (auto simp: mark_anomaly_def map_of_set_col split: option.splits)

lemma fold_mark_anomaly_other:
  "\<not> prefix ''cause_'' k \<Longrightarrow> map_of (fold mark_anomaly rows df) k = map_of df k"
  by (induction rows arbitrary: df) (simp_all add: mark_anomaly_other)

lemma fold_cause_columns_other:
  "\<not> prefix ''cause_'' k \<Longrightarrow>
     map_of (fold (\<lambda>cause d. set_col (''cause_'' @ cause) (replicate (len_df d) (Num 0)) d) cs df) k
       = map_of df k"
  by (induction cs arbitrary: df) (auto simp: map_of_set_col)

lemma merge_anomalies_other:
  "\<not> prefix ''cause_'' k \<Longrightarrow> map_of (merge_anomalies an df) k = map_of df k"
proof -
  assume k: "\<not> prefix ''cause_'' k"
  show ?thesis
    unfolding merge_anomalies_def
    by (rule trans [OF fold_mark_anomaly_other [OF k] fold_cause_columns_other [OF k]])
qed


lemma engineer_features_columns:
  assumes "engineer_features tel anom = Inr df"
  shows "\<exists>pw tm bh sg mu e.
           map_of tel ''power'' = Some pw \<and> map_of tel ''temperature'' = Some tm
         \<and> map_of tel ''batteryHealth'' = Some bh \<and> map_of tel ''signalStrength'' = Some sg
         \<and> map_of tel ''memoryUsage'' = Some mu \<and> map_of tel ''in_eclipse'' = Some e
         \<and> map_of df ''power_temp_ratio'' = Some (ratio pw tm)
         \<and> map_of df ''battery_power_ratio'' = Some (ratio bh pw)
         \<and> map_of df ''time_since_eclipse_change'' =
               Some (map (\<lambda>k. Num (real_of_int k)) (time_since_eclipse_change e))
         \<and> (\<forall>(p, x) \<in> {(''power'', pw), (''temperature'', tm), (''batteryHealth'', bh),
                          (''signalStrength'', sg), (''memoryUsage'', mu)}.
               map_of df (p @ ''_mean_1h'') = Some (fillna_series x (rolling_mean window_size x))
             \<and> map_of df (p @ ''_std_1h'') = Some (fillna (Num 0) (rolling_std window_size x)))"
proof -
  from assms obtain df1 df2 df3 df4 where
    t: "add_time_features tel = Inr df1" and
    f: "fold_err add_param_features params df1 = Inr df2" and
    r: "add_interaction_features df2 = Inr df3" and
    c: "add_eclipse_features df3 = Inr df4" and
    m: "df = (case anom of None \<Rightarrow> df4 | Some anomalies \<Rightarrow> merge_anomalies anomalies df4)"
    by (auto simp: engineer_features_def split: sum.splits)
  from f obtain d1 d2 d3 d4 where
    p1: "add_param_features ''power'' df1 = Inr d1" and
    p2: "add_param_features ''temperature'' d1 = Inr d2" and
    p3: "add_param_features ''batteryHealth'' d2 = Inr d3" and
    p4: "add_param_features ''signalStrength'' d3 = Inr d4" and
    p5: "add_param_features ''memoryUsage'' d4 = Inr df2"
    unfolding params_def by (auto split: sum.splits)
  have other: "map_of df k = map_of df4 k" if "\<not> prefix ''cause_'' k" for k
    using that m by (cases anom) (simp_all add: merge_anomalies_other)
  from add_time_features_Inr [OF t] add_param_features_Inr [OF p1]
    add_param_features_Inr [OF p2] add_param_features_Inr [OF p3]
    add_param_features_Inr [OF p4] add_param_features_Inr [OF p5]
    add_interaction_features_Inr [OF r] add_eclipse_features_Inr [OF c]
  show ?thesis
    by (auto simp: other)
qed

subsection \<open>Rolling statistics\<close>

lemma length_rolling_mean: "length (rolling_mean w xs) = length xs"
  by (simp add: rolling_mean_def)

lemma length_rolling_std: "length (rolling_std w xs) = length xs"
  by (simp add: rolling_std_def)

lemma window_at_incomplete: "i + 1 < w \<Longrightarrow> window_at w xs i = None"
  by (simp add: window_at_def)

lemma those_replicate_Some: "those (replicate w (Some v)) = Some (replicate w v)"
  by (induction w) simp_all

lemma window_at_constant:
  assumes w: "w \<le> i + 1" and i: "i < length xs"
    and c: "\<And>j. i + 1 - w \<le> j \<Longrightarrow> j \<le> i \<Longrightarrow> xs ! j = Num v"
  shows "window_at w xs i = Some (replicate w v)"
proof -
  have "take w (drop (i + 1 - w) xs) = replicate w (Num v)"
  proof (rule nth_equalityI)
    show "length (take w (drop (i + 1 - w) xs)) = length (replicate w (Num v))"
      using w i by simp
  next
    fix k assume "k < length (take w (drop (i + 1 - w) xs))"
    then have k: "k < w" by simp
    with w i have "take w (drop (i + 1 - w) xs) ! k = xs ! (i + 1 - w + k)"
      by simp
    also have "\<dots> = Num v"
      using k w by (intro c) simp_all
    finally show "take w (drop (i + 1 - w) xs) ! k = replicate w (Num v) ! k"
      using k by simp
  qed
  with w show ?thesis
    by (simp add: window_at_def those_replicate_Some)
qed

lemma mean_replicate: "0 < w \<Longrightarrow> mean (replicate w v) = v"
  by (simp add: mean_def sum_list_replicate)

lemma std_replicate: "0 < w \<Longrightarrow> std (replicate w v) = 0"
proof -
  assume w: "0 < w"
  have "map (\<lambda>x. (x - v)\<^sup>2) (replicate w v) = replicate w 0"
    by simp
  then show ?thesis
    using w by (simp add: std_def mean_replicate sum_list_replicate)
qed

lemma rolling_first_rows:
  assumes "i < length x" "i + 1 < w"
  shows "fillna_series x (rolling_mean w x) ! i = x ! i"
    and "fillna (Num 0) (rolling_std w x) ! i = Num 0"
  using assms
  by (simp_all add: fillna_series_def fillna_def rolling_mean_def rolling_std_def
      window_at_incomplete)

lemma rolling_constant_window:
  assumes "i < length x" "0 < w" "w \<le> i + 1"
    and "\<And>j. i + 1 - w \<le> j \<Longrightarrow> j \<le> i \<Longrightarrow> x ! j = Num v"
  shows "fillna_series x (rolling_mean w x) ! i = Num v"
    and "fillna (Num 0) (rolling_std w x) ! i = Num 0"
  using assms(1,2) window_at_constant [OF assms(3) assms(1) assms(4)]
  by (simp_all add: fillna_series_def fillna_def rolling_mean_def rolling_std_def
      mean_replicate std_replicate)


lemma engineer_features_param_columns:
  assumes "engineer_features tel anom = Inr df" and "p \<in> set params"
  shows "\<exists>x. map_of tel p = Some x
           \<and> map_of df (p @ ''_mean_1h'') = Some (fillna_series x (rolling_mean window_size x))
           \<and> map_of df (p @ ''_std_1h'') = Some (fillna (Num 0) (rolling_std window_size x))"
  using engineer_features_columns [OF assms(1)] assms(2)
  by (auto simp: params_def)

lemma those_map_Some: "those (map Some vs) = Some vs"
  by (induction vs) simp_all

lemma window_at_full:
  assumes "w \<le> i + 1" and "take w (drop (i + 1 - w) xs) = map Num vs"
  shows "window_at w xs i = Some vs"
proof -
  have "map num_of (map Num vs) = map Some vs" by simp
  with assms show ?thesis
    unfolding window_at_def by (simp only: those_map_Some if_False not_less [symmetric])
qed

lemma rolling_incomplete:
  assumes "i < length x" "i + 1 < w"
  shows "rolling_mean w x ! i = NaN" and "rolling_std w x ! i = NaN"
  using assms by (simp_all add: rolling_mean_def rolling_std_def window_at_incomplete)

lemma rolling_full:
  assumes "i < length x" "w \<le> i + 1" "take w (drop (i + 1 - w) x) = map Num vs"
  shows "rolling_mean w x ! i = Num (mean vs)" and "rolling_std w x ! i = Num (std vs)"
    and "fillna_series x (rolling_mean w x) ! i = Num (mean vs)"
    and "fillna (Num 0) (rolling_std w x) ! i = Num (std vs)"
  using assms(1) window_at_full [OF assms(2,3)]
  by (simp_all add: rolling_mean_def rolling_std_def fillna_series_def fillna_def)

lemma rolling_constant:
  assumes "i < length x" "0 < w" "w \<le> i + 1"
    and "\<And>j. i + 1 - w \<le> j \<Longrightarrow> j \<le> i \<Longrightarrow> x ! j = Num v"
  shows "rolling_mean w x ! i = Num v" and "rolling_std w x ! i = Num 0"
  using assms(1,2) window_at_constant [OF assms(3) assms(1) assms(4)]
  by (simp_all add: rolling_mean_def rolling_std_def mean_replicate std_replicate)

subsection \<open>Tables without missing values keep every row\<close>

lemma complete_example: "complete_telemetry 6 telemetry_example"
  by (simp add: complete_telemetry_def telemetry_example_def stamp_column_def finite_column_def
      required_columns_def params_def)

lemma set_set_col: "set (set_col k v df) \<subseteq> insert (k, v) (set df)"
  unfolding set_col_def by (induction df) auto

lemma set_col_nonempty: "set_col k v df \<noteq> []"
  unfolding set_col_def by (cases df) auto

lemma len_df_all:
  "df \<noteq> [] \<Longrightarrow> list_all (\<lambda>(k, c). length c = n \<and> P c) df \<Longrightarrow> len_df df = n"
  by (cases df) (auto simp: len_df_def)

lemma complete_len_df: "complete_telemetry n df \<Longrightarrow> len_df df = n"
  unfolding complete_telemetry_def
  by (elim conjE) (rule len_df_all [where P = "\<lambda>c. NaN \<notin> set c"])

lemma complete_column:
  assumes "complete_telemetry n df" "map_of df k = Some c"
  shows "length c = n" and "NaN \<notin> set c"
proof -
  from assms(2) have "(k, c) \<in> set df" by (rule map_of_SomeD)
  with assms(1) show "length c = n" and "NaN \<notin> set c"
    by (auto simp: complete_telemetry_def list_all_iff)
qed

lemma complete_required:
  assumes "complete_telemetry n df" "p \<in> set required_columns"
  shows "\<exists>x. map_of df p = Some x \<and> finite_column x \<and> length x = n"
proof -
  from assms have "case map_of df p of Some x \<Rightarrow> finite_column x | None \<Rightarrow> False"
    by (simp add: complete_telemetry_def list_all_iff)
  then obtain x where "map_of df p = Some x" "finite_column x"
    by (cases "map_of df p") simp_all
  with complete_column(1) [OF assms(1)] show ?thesis by blast
qed

lemma complete_set_col:
  assumes c: "complete_telemetry n df"
    and k: "k \<notin> set required_columns" "k \<noteq> ''timestamp''"
    and v: "length v = n" "NaN \<notin> set v"
  shows "complete_telemetry n (set_col k v df)"
proof -
  have "list_all (\<lambda>(k, c). length c = n \<and> NaN \<notin> set c) (set_col k v df)"
    using c v set_set_col [of k v df]
    by (auto simp: complete_telemetry_def list_all_iff)
  moreover have "map_of (set_col k v df) ''timestamp'' = map_of df ''timestamp''"
    using k(2) by (simp add: map_of_set_col)
  moreover have "map_of (set_col k v df) p = map_of df p" if "p \<in> set required_columns" for p
    using that k(1) by (auto simp: map_of_set_col)
  ultimately show ?thesis
    using c by (simp add: complete_telemetry_def set_col_nonempty list_all_iff)
qed


lemma finite_column_nth: "finite_column c \<Longrightarrow> i < length c \<Longrightarrow> \<exists>r. c ! i = Num r"
proof -
  assume "finite_column c" "i < length c"
  then have "case c ! i of Num _ \<Rightarrow> True | _ \<Rightarrow> False"
    by (simp add: finite_column_def list_all_length)
  then show ?thesis by (cases "c ! i") simp_all
qed

lemma finite_columnI: "(\<And>i. i < length c \<Longrightarrow> \<exists>r. c ! i = Num r) \<Longrightarrow> finite_column c"
proof -
  assume a: "\<And>i. i < length c \<Longrightarrow> \<exists>r. c ! i = Num r"
  have "case c ! i of Num _ \<Rightarrow> True | _ \<Rightarrow> False" if "i < length c" for i
    using a [OF that] by auto
  then show ?thesis by (simp add: finite_column_def list_all_length)
qed

lemma finite_column_no_nan: "finite_column c \<Longrightarrow> NaN \<notin> set c"
  by (auto simp: finite_column_def list_all_iff)

lemma finite_column_numeric: "finite_column c \<Longrightarrow> numeric c"
  by (auto simp: finite_column_def numeric_def list_all_iff split: cell.splits)

lemma fillna_no_nan: "v \<noteq> NaN \<Longrightarrow> NaN \<notin> set (fillna v xs)"
  by (auto simp: fillna_def)

lemma length_fillna: "length (fillna v xs) = length xs"
  by (simp add: fillna_def)

lemma rolling_mean_nth_cases:
  "i < length x \<Longrightarrow> rolling_mean w x ! i = NaN \<or> (\<exists>r. rolling_mean w x ! i = Num r)"
  by (simp add: rolling_mean_def split: option.splits)

lemma finite_mean_1h:
  assumes "finite_column x"
  shows "finite_column (fillna_series x (rolling_mean w x))"
proof (rule finite_columnI)
  fix i assume "i < length (fillna_series x (rolling_mean w x))"
  then have i: "i < length x"
    by (simp add: fillna_series_def length_rolling_mean)
  then have eq: "fillna_series x (rolling_mean w x) ! i
          = (if rolling_mean w x ! i = NaN then x ! i else rolling_mean w x ! i)"
    by (simp add: fillna_series_def length_rolling_mean)
  from finite_column_nth [OF assms i] rolling_mean_nth_cases [OF i, of w]
  show "\<exists>r. fillna_series x (rolling_mean w x) ! i = Num r"
    unfolding eq by auto
qed

lemma length_mean_1h: "length (fillna_series x (rolling_mean w x)) = length x"
  by (simp add: fillna_series_def length_rolling_mean)

lemma finite_map2_cell_sub:
  assumes "finite_column a" "finite_column b"
  shows "finite_column (map2 cell_sub a b)"
proof (rule finite_columnI)
  fix i assume "i < length (map2 cell_sub a b)"
  then have "i < length a" "i < length b" by simp_all
  with finite_column_nth [OF assms(1)] finite_column_nth [OF assms(2)]
  obtain r s where "a ! i = Num r" "b ! i = Num s" by blast
  with \<open>i < length a\<close> \<open>i < length b\<close> show "\<exists>r. map2 cell_sub a b ! i = Num r"
    by simp
qed

lemma finite_ratio:
  assumes "finite_column a" "finite_column b"
  shows "finite_column (ratio a b)"
proof (rule finite_columnI)
  fix i assume "i < length (ratio a b)"
  then have ia: "i < length a" and ib: "i < length b"
    by (simp_all add: ratio_def replace_val_def)
  with finite_column_nth [OF assms(1)] finite_column_nth [OF assms(2)]
  obtain r s where "a ! i = Num r" "b ! i = Num s" by blast
  with ia ib show "\<exists>r. ratio a b ! i = Num r"
    by (simp add: ratio_def replace_val_def)
qed

lemma length_ratio: "length (ratio a b) = min (length a) (length b)"
  by (simp add: ratio_def replace_val_def)

lemma derived_name_free:
  assumes "p \<in> set params"
  shows "p @ ''_delta'' \<notin> set required_columns" "p @ ''_delta'' \<noteq> ''timestamp''"
    "p @ ''_mean_1h'' \<notin> set required_columns" "p @ ''_mean_1h'' \<noteq> ''timestamp''"
    "p @ ''_std_1h'' \<notin> set required_columns" "p @ ''_std_1h'' \<noteq> ''timestamp''"
    "p @ ''_deviation'' \<notin> set required_columns" "p @ ''_deviation'' \<noteq> ''timestamp''"
  using assms by (auto simp: params_def required_columns_def)

lemma params_required: "p \<in> set params \<Longrightarrow> p \<in> set required_columns"
  by (simp add: required_columns_def)

lemma add_param_features_complete:
  assumes c: "complete_telemetry n df" and p: "p \<in> set params"
  shows "\<exists>df'. add_param_features p df = Inr df' \<and> complete_telemetry n df'"
proof -
  from complete_required [OF c params_required [OF p]] obtain x where
    x: "map_of df p = Some x" and fx: "finite_column x" and lx: "length x = n"
    by blast
  let ?delta = "fillna (Num 0) (diff x)"
  let ?mean = "fillna_series x (rolling_mean window_size x)"
  let ?std = "fillna (Num 0) (rolling_std window_size x)"
  let ?dev = "map2 cell_sub x ?mean"
  have fm: "finite_column ?mean" by (rule finite_mean_1h [OF fx])
  have c1: "complete_telemetry n (set_col (p @ ''_delta'') ?delta df)"
    using c derived_name_free(1,2) [OF p]
    by (rule complete_set_col) (simp_all add: length_fillna length_diff lx fillna_no_nan)
  have c2: "complete_telemetry n (set_col (p @ ''_mean_1h'') ?mean
              (set_col (p @ ''_delta'') ?delta df))"
    using c1 derived_name_free(3,4) [OF p]
    by (rule complete_set_col) (simp_all add: length_mean_1h lx finite_column_no_nan [OF fm])
  have c3: "complete_telemetry n (set_col (p @ ''_std_1h'') ?std
              (set_col (p @ ''_mean_1h'') ?mean (set_col (p @ ''_delta'') ?delta df)))"
    using c2 derived_name_free(5,6) [OF p]
    by (rule complete_set_col) (simp_all add: length_fillna length_rolling_std lx fillna_no_nan)
  have c4: "complete_telemetry n (set_col (p @ ''_deviation'') ?dev
              (set_col (p @ ''_std_1h'') ?std
                (set_col (p @ ''_mean_1h'') ?mean (set_col (p @ ''_delta'') ?delta df))))"
  proof (rule complete_set_col [OF c3 derived_name_free(7,8) [OF p]])
    show "length ?dev = n" by (simp add: length_mean_1h lx)
    show "NaN \<notin> set ?dev"
      by (rule finite_column_no_nan [OF finite_map2_cell_sub [OF fx fm]])
  qed
  have "add_param_features p df = Inr (set_col (p @ ''_deviation'') ?dev
              (set_col (p @ ''_std_1h'') ?std
                (set_col (p @ ''_mean_1h'') ?mean (set_col (p @ ''_delta'') ?delta df))))"
    using x finite_column_numeric [OF fx]
    by (simp add: add_param_features_def get_col_def Let_def)
  with c4 show ?thesis by simp
qed

lemma fold_err_invariant:
  assumes "\<And>x s. x \<in> set xs \<Longrightarrow> Q s \<Longrightarrow> \<exists>s'. f x s = Inr s' \<and> Q s'" and "Q s"
  shows "\<exists>s'. fold_err f xs s = Inr s' \<and> Q s'"
  using assms
proof (induction xs arbitrary: s)
  case Nil
  then show ?case by simp
next
  case (Cons x xs)
  from Cons.prems(1) [of x s] Cons.prems(2) obtain s1 where s1: "f x s = Inr s1" "Q s1"
    by auto
  have "\<exists>s'. fold_err f xs s1 = Inr s' \<and> Q s'"
    by (rule Cons.IH) (use Cons.prems(1) s1(2) in auto)
  with s1 show ?case by simp
qed


lemma complete_timestamp:
  assumes "complete_telemetry n df"
  shows "\<exists>ts. map_of df ''timestamp'' = Some ts \<and> stamp_column ts \<and> length ts = n"
proof -
  from assms obtain ts where "map_of df ''timestamp'' = Some ts" "stamp_column ts"
    by (cases "map_of df ''timestamp''") (simp_all add: complete_telemetry_def)
  with complete_column(1) [OF assms] show ?thesis by blast
qed

lemma stamp_column_nth: "stamp_column c \<Longrightarrow> i < length c \<Longrightarrow> \<exists>t. c ! i = Stamp t"
proof -
  assume "stamp_column c" "i < length c"
  then have "case c ! i of Stamp _ \<Rightarrow> True | _ \<Rightarrow> False"
    by (simp add: stamp_column_def list_all_length)
  then show ?thesis by (cases "c ! i") simp_all
qed

lemma finite_hour: "stamp_column ts \<Longrightarrow> finite_column (map hour ts)"
  by (rule finite_columnI) (auto dest: stamp_column_nth)

lemma finite_day_of_week: "stamp_column ts \<Longrightarrow> finite_column (map day_of_week ts)"
  by (rule finite_columnI) (auto dest: stamp_column_nth)

lemma stamp_column_parsed:
  "stamp_column ts \<Longrightarrow>
     list_all (\<lambda>c. case c of Stamp _ \<Rightarrow> True | NaN \<Rightarrow> True | _ \<Rightarrow> False) ts"
  by (auto simp: stamp_column_def list_all_iff split: cell.splits)

lemma add_time_features_complete:
  assumes c: "complete_telemetry n df"
  shows "\<exists>df'. add_time_features df = Inr df' \<and> complete_telemetry n df'"
proof -
  from complete_timestamp [OF c] obtain ts where
    ts: "map_of df ''timestamp'' = Some ts" and st: "stamp_column ts" and l: "length ts = n"
    by blast
  have c1: "complete_telemetry n (set_col ''hour'' (map hour ts) df)"
  proof (rule complete_set_col [OF c])
    show "length (map hour ts) = n" by (simp add: l)
    show "NaN \<notin> set (map hour ts)"
      by (rule finite_column_no_nan [OF finite_hour [OF st]])
  qed (simp_all add: required_columns_def params_def)
  have c2: "complete_telemetry n
              (set_col ''day_of_week'' (map day_of_week ts) (set_col ''hour'' (map hour ts) df))"
  proof (rule complete_set_col [OF c1])
    show "length (map day_of_week ts) = n" by (simp add: l)
    show "NaN \<notin> set (map day_of_week ts)"
      by (rule finite_column_no_nan [OF finite_day_of_week [OF st]])
  qed (simp_all add: required_columns_def params_def)
  have "add_time_features df =
          Inr (set_col ''day_of_week'' (map day_of_week ts) (set_col ''hour'' (map hour ts) df))"
    using ts stamp_column_parsed [OF st] by (simp add: add_time_features_def get_col_def)
  with c2 show ?thesis by simp
qed

lemma add_interaction_features_complete:
  assumes c: "complete_telemetry n df"
  shows "\<exists>df'. add_interaction_features df = Inr df' \<and> complete_telemetry n df'"
proof -
  have req: "''power'' \<in> set required_columns" "''temperature'' \<in> set required_columns"
    "''batteryHealth'' \<in> set required_columns"
    by (simp_all add: required_columns_def params_def)
  from complete_required [OF c req(1)] obtain pw where
    pw: "map_of df ''power'' = Some pw" "finite_column pw" "length pw = n" by blast
  from complete_required [OF c req(2)] obtain tm where
    tm: "map_of df ''temperature'' = Some tm" "finite_column tm" "length tm = n" by blast
  from complete_required [OF c req(3)] obtain bh where
    bh: "map_of df ''batteryHealth'' = Some bh" "finite_column bh" "length bh = n" by blast
  have c1: "complete_telemetry n (set_col ''power_temp_ratio'' (ratio pw tm) df)"
  proof (rule complete_set_col [OF c])
    show "length (ratio pw tm) = n" by (simp add: length_ratio pw tm)
    show "NaN \<notin> set (ratio pw tm)"
      by (rule finite_column_no_nan [OF finite_ratio [OF pw(2) tm(2)]])
  qed (simp_all add: required_columns_def params_def)
  have c2: "complete_telemetry n (set_col ''battery_power_ratio'' (ratio bh pw)
              (set_col ''power_temp_ratio'' (ratio pw tm) df))"
  proof (rule complete_set_col [OF c1])
    show "length (ratio bh pw) = n" by (simp add: length_ratio pw bh)
    show "NaN \<notin> set (ratio bh pw)"
      by (rule finite_column_no_nan [OF finite_ratio [OF bh(2) pw(2)]])
  qed (simp_all add: required_columns_def params_def)
  have "add_interaction_features df = Inr (set_col ''battery_power_ratio'' (ratio bh pw)
              (set_col ''power_temp_ratio'' (ratio pw tm) df))"
    using pw(1) tm(1) bh(1) by (simp add: add_interaction_features_def get_col_def)
  with c2 show ?thesis by simp
qed

lemma add_eclipse_features_complete:
  assumes c: "complete_telemetry n df"
  shows "\<exists>df'. add_eclipse_features df = Inr df' \<and> complete_telemetry n df'"
proof -
  have "''in_eclipse'' \<in> set required_columns"
    by (simp add: required_columns_def)
  from complete_required [OF c this] obtain e where
    e: "map_of df ''in_eclipse'' = Some e" "finite_column e" "length e = n" by blast
  let ?t = "map (\<lambda>k. Num (real_of_int k)) (time_since_eclipse_change e)"
  have c1: "complete_telemetry n (set_col ''eclipse_change'' (eclipse_change e) df)"
  proof (rule complete_set_col [OF c])
    show "length (eclipse_change e) = n" by (simp add: length_eclipse_change e)
    show "NaN \<notin> set (eclipse_change e)"
      unfolding eclipse_change_def by (rule fillna_no_nan) simp
  qed (simp_all add: required_columns_def params_def)
  have c2: "complete_telemetry n (set_col ''time_since_eclipse_change'' ?t
              (set_col ''eclipse_change'' (eclipse_change e) df))"
  proof (rule complete_set_col [OF c1])
    show "length ?t = n"
      by (simp add: time_since_eclipse_change_def length_eclipse_scan length_eclipse_change e)
    show "NaN \<notin> set ?t" by auto
  qed (simp_all add: required_columns_def params_def)
  have "add_eclipse_features df = Inr (set_col ''time_since_eclipse_change'' ?t
              (set_col ''eclipse_change'' (eclipse_change e) df))"
    using e(1) finite_column_numeric [OF e(2)]
    by (simp add: add_eclipse_features_def get_col_def)
  with c2 show ?thesis by simp
qed


lemma cause_name_free:
  "''cause_'' @ c \<notin> set required_columns" "''cause_'' @ c \<noteq> ''timestamp''"
  by (simp_all add: required_columns_def params_def)

lemma set_unique: "set (unique xs) = set xs"
  by (induction xs rule: unique.induct) auto

lemma cause_column_complete:
  assumes "complete_telemetry n df"
  shows "complete_telemetry n (set_col (''cause_'' @ c) (replicate (len_df df) (Num 0)) df)"
  by (rule complete_set_col [OF assms cause_name_free])
     (simp_all add: complete_len_df [OF assms])

lemma fold_cause_columns_complete:
  assumes "complete_telemetry n df"
  shows "complete_telemetry n
           (fold (\<lambda>cause d. set_col (''cause_'' @ cause) (replicate (len_df d) (Num 0)) d) cs df)"
  using assms
proof (induction cs arbitrary: df)
  case Nil
  then show ?case by simp
next
  case (Cons c cs)
  from Cons.IH [OF cause_column_complete [OF Cons.prems, of c]] show ?case
    by simp
qed

lemma fold_cause_columns_dom:
  assumes "k \<in> dom (map_of df)"
  shows "k \<in> dom (map_of
           (fold (\<lambda>cause d. set_col (''cause_'' @ cause) (replicate (len_df d) (Num 0)) d) cs df))"
  using assms
proof (induction cs arbitrary: df)
  case Nil
  then show ?case by simp
next
  case (Cons c cs)
  have "k \<in> dom (map_of (set_col (''cause_'' @ c) (replicate (len_df df) (Num 0)) df))"
    using Cons.prems by (auto simp: map_of_set_col)
  from Cons.IH [OF this] show ?case by simp
qed

lemma fold_cause_columns_created:
  assumes "c \<in> set cs"
  shows "''cause_'' @ c \<in> dom (map_of
           (fold (\<lambda>cause d. set_col (''cause_'' @ cause) (replicate (len_df d) (Num 0)) d) cs df))"
  using assms
proof (induction cs arbitrary: df)
  case Nil
  then show ?case by simp
next
  case (Cons a cs)
  show ?case
  proof (cases "c = a")
    case True
    have "''cause_'' @ c \<in> dom (map_of (set_col (''cause_'' @ a) (replicate (len_df df) (Num 0)) df))"
      using True by (simp add: map_of_set_col)
    from fold_cause_columns_dom [OF this] show ?thesis by simp
  next
    case False
    with Cons.prems have "c \<in> set cs" by simp
    from Cons.IH [OF this] show ?thesis by simp
  qed
qed

lemma mark_anomaly_complete:
  assumes c: "complete_telemetry n df" and d: "''cause_'' @ snd row \<in> dom (map_of df)"
  shows "complete_telemetry n (mark_anomaly row df)"
proof (cases "first_match (the (map_of df ''timestamp'')) (fst row)")
  case None
  with c show ?thesis by (simp add: mark_anomaly_def)
next
  case (Some i)
  from d obtain col where col: "map_of df (''cause_'' @ snd row) = Some col" by blast
  have "complete_telemetry n (set_col (''cause_'' @ snd row) (col[i := Num 1]) df)"
  proof (rule complete_set_col [OF c cause_name_free])
    show "length (col[i := Num 1]) = n"
      using complete_column(1) [OF c col] by simp
    show "NaN \<notin> set (col[i := Num 1])"
      using complete_column(2) [OF c col] set_update_subset_insert [of col i "Num 1"] by auto
  qed
  with Some col show ?thesis by (simp add: mark_anomaly_def)
qed

lemma mark_anomaly_dom: "k \<in> dom (map_of df) \<Longrightarrow> k \<in> dom (map_of (mark_anomaly row df))"
  by (auto simp: mark_anomaly_def map_of_set_col split: option.splits)

lemma fold_mark_anomaly_complete:
  assumes "complete_telemetry n df"
    and "\<And>r. r \<in> set rows \<Longrightarrow> ''cause_'' @ snd r \<in> dom (map_of df)"
  shows "complete_telemetry n (fold mark_anomaly rows df)"
  using assms
proof (induction rows arbitrary: df)
  case Nil
  then show ?case by simp
next
  case (Cons r rows)
  have 1: "complete_telemetry n (mark_anomaly r df)"
    by (rule mark_anomaly_complete [OF Cons.prems(1)], rule Cons.prems(2)) simp
  have 2: "''cause_'' @ snd q \<in> dom (map_of (mark_anomaly r df))" if "q \<in> set rows" for q
    by (rule mark_anomaly_dom, rule Cons.prems(2)) (simp add: that)
  from Cons.IH [OF 1 2] show ?case by simp
qed

lemma merge_anomalies_complete:
  assumes "complete_telemetry n df"
  shows "complete_telemetry n (merge_anomalies anomalies df)"
  unfolding merge_anomalies_def
proof (rule fold_mark_anomaly_complete)
  show "complete_telemetry n
     (fold (\<lambda>cause d. set_col (''cause_'' @ cause) (replicate (len_df d) (Num 0)) d)
        (unique (map snd anomalies)) df)"
    by (rule fold_cause_columns_complete [OF assms])
next
  fix r assume "r \<in> set anomalies"
  then have "snd r \<in> set (unique (map snd anomalies))"
    by (simp add: set_unique)
  then show "''cause_'' @ snd r \<in> dom (map_of
     (fold (\<lambda>cause d. set_col (''cause_'' @ cause) (replicate (len_df d) (Num 0)) d)
        (unique (map snd anomalies)) df))"
    by (rule fold_cause_columns_created)
qed

lemma engineer_features_complete:
  assumes c: "complete_telemetry n tel"
  shows "\<exists>df. engineer_features tel anom = Inr df \<and> complete_telemetry n df"
proof -
  from add_time_features_complete [OF c] obtain df1 where
    1: "add_time_features tel = Inr df1" "complete_telemetry n df1" by blast
  have "\<exists>df2. fold_err add_param_features params df1 = Inr df2 \<and> complete_telemetry n df2"
    by (rule fold_err_invariant [where Q = "complete_telemetry n"])
       (simp_all add: add_param_features_complete 1)
  then obtain df2 where
    2: "fold_err add_param_features params df1 = Inr df2" "complete_telemetry n df2" by blast
  from add_interaction_features_complete [OF 2(2)] obtain df3 where
    3: "add_interaction_features df2 = Inr df3" "complete_telemetry n df3" by blast
  from add_eclipse_features_complete [OF 3(2)] obtain df4 where
    4: "add_eclipse_features df3 = Inr df4" "complete_telemetry n df4" by blast
  have "complete_telemetry n
          (case anom of None \<Rightarrow> df4 | Some anomalies \<Rightarrow> merge_anomalies anomalies df4)"
    using 4(2) by (cases anom) (simp_all add: merge_anomalies_complete)
  with 1 2 3 4 show ?thesis
    by (simp add: engineer_features_def)
qed

lemma keep_all_rows:
  "length c = length m \<Longrightarrow> \<forall>b \<in> set m. b \<Longrightarrow> map fst (filter snd (zip c m)) = c"
  by (induction c m rule: list_induct2) auto

lemma dropna_complete:
  assumes c: "complete_telemetry n df"
  shows "dropna df = df"
proof -
  let ?m = "map (\<lambda>i. list_all (\<lambda>(k, c). c ! i \<noteq> NaN) df) [0 ..< len_df df]"
  have all: "\<forall>b \<in> set ?m. b"
  proof -
    have "col ! i \<noteq> NaN" if "i < n" "(k, col) \<in> set df" for i k col
    proof -
      from c that(2) have "length col = n" "NaN \<notin> set col"
        by (auto simp: complete_telemetry_def list_all_iff)
      with that(1) show ?thesis by (metis nth_mem)
    qed
    then show ?thesis
      by (auto simp: list_all_iff complete_len_df [OF c])
  qed
  have "map fst (filter snd (zip col ?m)) = col" if "(k, col) \<in> set df" for k col
  proof (rule keep_all_rows [OF _ all])
    from c that show "length col = length ?m"
      by (auto simp: complete_telemetry_def list_all_iff complete_len_df [OF c])
  qed
  then have "map (\<lambda>(k, c). (k, map fst (filter snd (zip c ?m)))) df = map (\<lambda>x. x) df"
    by (intro map_cong) auto
  then show ?thesis
    by (simp add: dropna_def bool_index_def)
qed

lemma ensure_anomaly_column_complete:
  assumes "complete_telemetry n df"
  shows "complete_telemetry n (ensure_anomaly_column df)"
proof (cases "''anomaly'' \<notin> set (columns df)")
  case True
  have "complete_telemetry n (set_col ''anomaly'' (replicate (len_df df) (Num 0)) df)"
    by (rule complete_set_col [OF assms])
       (simp_all add: required_columns_def params_def complete_len_df [OF assms])
  with True show ?thesis by (simp add: ensure_anomaly_column_def)
next
  case False
  with assms show ?thesis by (simp add: ensure_anomaly_column_def)
qed

lemma preprocess_complete:
  assumes c: "complete_telemetry n tel"
  shows "\<exists>out. preprocess_satellite_data tel anom = Inr out \<and> complete_telemetry n out"
proof -
  from engineer_features_complete [OF c] obtain df where
    df: "engineer_features tel anom = Inr df" "complete_telemetry n df" by blast
  from df(2) have "complete_telemetry n (ensure_anomaly_column (dropna df))"
    by (simp add: dropna_complete ensure_anomaly_column_complete)
  with df(1) show ?thesis
    by (simp add: preprocess_satellite_data_def)
qed


text \<open>
  On every telemetry table without missing values \<open>preprocess_satellite_data\<close> raises no
  error and returns as many rows as it was given: the cells that lack rolling-window
  history have been filled before \<open>dropna\<close> runs, and no row is dropped.
\<close>

lemma preprocess_keeps_rows_without_missing_values:
  assumes "complete_telemetry n telemetry"
  shows "\<exists>out. preprocess_satellite_data telemetry anomaly_file = Inr out
           \<and> len_df out = len_df telemetry \<and> len_df telemetry = n"
proof -
  from preprocess_complete [OF assms] obtain out where
    "preprocess_satellite_data telemetry anomaly_file = Inr out" "complete_telemetry n out"
    by blast
  then show ?thesis
    using complete_len_df [OF assms] by (simp add: complete_len_df)
qed

text \<open>
  C1.  The comment at line 70 announces that \<open>dropna\<close> drops the rows with NaN from the
  window calculations, which would leave \<open>window_size - 1\<close> rows fewer, as the claim
  says.  But lines 30 to 34 have filled those cells already: given the six samples of
  \<open>telemetry_example\<close> and no anomaly file, the code returns all six rows, not one.
\<close>

theorem preprocess_example_keeps_six_rows:
  "len_df telemetry_example = 6
   \<and> map_sum id len_df (preprocess_satellite_data telemetry_example None) = Inr 6
   \<and> map_sum id len_df (preprocess_satellite_data telemetry_example None)
       \<noteq> Inr (6 - (window_size - 1))"
proof -
  from preprocess_complete [OF complete_example, of None] obtain out where
    "preprocess_satellite_data telemetry_example None = Inr out" "complete_telemetry 6 out"
    by blast
  then show ?thesis
    using complete_len_df [OF complete_example]
    by (simp add: complete_len_df window_size_def)
qed

text \<open>
  What \<open>dropna\<close> keeps in general: of a table whose columns all have \<open>n\<close> cells, the rows
  without a missing cell.
\<close>

lemma length_filter_zip_mask:
  "length c = length m \<Longrightarrow> length (filter snd (zip c m)) = length (filter (\<lambda>b. b) m)"
  by (induction c m rule: list_induct2) simp_all

lemma len_df_dropna:
  assumes "df \<noteq> []" and "list_all (\<lambda>(k, c). length c = n) df"
  shows "len_df (dropna df)
           = length (filter (\<lambda>i. list_all (\<lambda>(k, c). c ! i \<noteq> NaN) df) [0 ..< n])"
proof -
  from assms obtain k c rest where df: "df = (k, c) # rest" and c: "length c = n"
    by (cases df) auto
  then have n: "len_df df = n" by (simp add: len_df_def)
  let ?m = "map (\<lambda>i. list_all (\<lambda>(k, c). c ! i \<noteq> NaN) df) [0 ..< n]"
  have "len_df (dropna df) = length (filter snd (zip c ?m))"
    unfolding dropna_def n by (simp add: df bool_index_def len_df_def)
  also have "\<dots> = length (filter (\<lambda>b. b) ?m)"
    by (rule length_filter_zip_mask) (simp add: c)
  also have "\<dots> = length (filter (\<lambda>i. list_all (\<lambda>(k, c). c ! i \<noteq> NaN) df) [0 ..< n])"
    by (simp add: filter_map o_def)
  finally show ?thesis .
qed

text \<open>
  On a table without missing values the table returned holds the engineered columns as
  they were computed.
\<close>

lemma preprocess_returns_engineered_columns:
  assumes c: "complete_telemetry n tel" and eng: "engineer_features tel anom = Inr df"
    and k: "k \<noteq> ''anomaly''"
  shows "\<exists>out. preprocess_satellite_data tel anom = Inr out \<and> map_of out k = map_of df k"
proof -
  from engineer_features_complete [OF c, of anom] eng have "complete_telemetry n df"
    by simp
  then have "dropna df = df" by (rule dropna_complete)
  with eng have "preprocess_satellite_data tel anom = Inr (ensure_anomaly_column df)"
    by (simp add: preprocess_satellite_data_def)
  moreover have "map_of (ensure_anomaly_column df) k = map_of df k"
    using k by (simp add: ensure_anomaly_column_def map_of_set_col)
  ultimately show ?thesis by simp
qed

lemma rolling_names_not_anomaly:
  "p \<in> set params \<Longrightarrow> p @ ''_mean_1h'' \<noteq> ''anomaly'' \<and> p @ ''_std_1h'' \<noteq> ''anomaly''"
  by (auto simp: params_def)

text \<open>
  C8.  For each of the five parameters with raw column \<open>x\<close>, \<open>preprocess_satellite_data\<close>
  computes \<open>x.rolling(window_size)\<close>: in the first \<open>window_size - 1\<close> rows the rolling mean
  and standard deviation are missing, and the \<open>_mean_1h\<close> column is filled with the raw
  value, the \<open>_std_1h\<close> column with 0; in a row whose window holds the numbers \<open>vs\<close> they
  are the mean and the sample standard deviation of \<open>vs\<close>; so for a window of
  \<open>window_size\<close> equal values \<open>v\<close> the rolling mean is \<open>v\<close> and the rolling standard
  deviation is 0.  On a table without missing values the table returned holds these two
  columns.
\<close>

theorem rolling_statistics_edges_and_constant_windows:
  assumes eng: "engineer_features tel anom = Inr df" and p: "p \<in> set params"
  shows "\<exists>x m s. map_of tel p = Some x
           \<and> map_of df (p @ ''_mean_1h'') = Some m \<and> map_of df (p @ ''_std_1h'') = Some s
           \<and> m = fillna_series x (rolling_mean window_size x)
           \<and> s = fillna (Num 0) (rolling_std window_size x)
           \<and> length m = length x \<and> length s = length x
           \<and> (\<forall>i < length x. i + 1 < window_size \<longrightarrow>
                 rolling_mean window_size x ! i = NaN \<and> rolling_std window_size x ! i = NaN
               \<and> m ! i = x ! i \<and> s ! i = Num 0)
           \<and> (\<forall>i < length x. \<forall>vs.
                 window_size \<le> i + 1
                 \<and> take window_size (drop (i + 1 - window_size) x) = map Num vs \<longrightarrow>
                 rolling_mean window_size x ! i = Num (mean vs)
               \<and> rolling_std window_size x ! i = Num (std vs)
               \<and> m ! i = Num (mean vs) \<and> s ! i = Num (std vs))
           \<and> (\<forall>i < length x. \<forall>v.
                 window_size \<le> i + 1 \<and> (\<forall>j. i + 1 - window_size \<le> j \<and> j \<le> i \<longrightarrow> x ! j = Num v)
                 \<longrightarrow> rolling_mean window_size x ! i = Num v
                   \<and> rolling_std window_size x ! i = Num 0
                   \<and> m ! i = Num v \<and> s ! i = Num 0)
           \<and> (\<forall>v. mean (replicate window_size v) = v \<and> std (replicate window_size v) = 0)
           \<and> (\<forall>n. complete_telemetry n tel \<longrightarrow>
                 (\<exists>out. preprocess_satellite_data tel anom = Inr out
                    \<and> map_of out (p @ ''_mean_1h'') = Some m
                    \<and> map_of out (p @ ''_std_1h'') = Some s))"
proof -
  define nm where "nm = p @ ''_mean_1h''"
  define ns where "ns = p @ ''_std_1h''"
  define W where "W = window_size"
  from engineer_features_param_columns [OF eng p, folded nm_def ns_def W_def] obtain x where
    x: "map_of tel p = Some x" and
    m0: "map_of df nm = Some (fillna_series x (rolling_mean W x))" and
    s0: "map_of df ns = Some (fillna (Num 0) (rolling_std W x))"
    by (elim exE conjE)
  define rm where "rm = rolling_mean W x"
  define rs where "rs = rolling_std W x"
  define m where "m = fillna_series x rm"
  define s where "s = fillna (Num 0) rs"
  have lm: "length m = length x"
    by (simp add: m_def rm_def fillna_series_def length_rolling_mean)
  have ls: "length s = length x"
    by (simp add: s_def rs_def fillna_def length_rolling_std)
  have w: "0 < W"
    by (simp add: W_def window_size_def)
  have first: "rm ! i = NaN \<and> rs ! i = NaN \<and> m ! i = x ! i \<and> s ! i = Num 0"
    if "i < length x" "i + 1 < W" for i
    unfolding m_def s_def rm_def rs_def
    using rolling_incomplete [OF that] rolling_first_rows [OF that] by (intro conjI)
  have full: "rm ! i = Num (mean vs) \<and> rs ! i = Num (std vs)
                \<and> m ! i = Num (mean vs) \<and> s ! i = Num (std vs)"
    if "i < length x" "W \<le> i + 1" "take W (drop (i + 1 - W) x) = map Num vs" for i vs
    unfolding m_def s_def rm_def rs_def
    using rolling_full [OF that] by (intro conjI)
  have const: "rm ! i = Num v \<and> rs ! i = Num 0 \<and> m ! i = Num v \<and> s ! i = Num 0"
    if i: "i < length x" and wi: "W \<le> i + 1"
      and c: "\<forall>j. i + 1 - W \<le> j \<and> j \<le> i \<longrightarrow> x ! j = Num v" for i v
  proof -
    from c have c': "\<And>j. i + 1 - W \<le> j \<Longrightarrow> j \<le> i \<Longrightarrow> x ! j = Num v"
      by blast
    show ?thesis
      unfolding m_def s_def rm_def rs_def
      using rolling_constant [OF i w wi c'] rolling_constant_window [OF i w wi c']
      by (intro conjI)
  qed
  have pure: "\<forall>v. mean (replicate W v) = v \<and> std (replicate W v) = 0"
    using w by (simp add: mean_replicate std_replicate)
  have ret: "\<exists>out. preprocess_satellite_data tel anom = Inr out
               \<and> map_of out nm = Some m \<and> map_of out ns = Some s"
    if c: "complete_telemetry n tel" for n
  proof -
    from engineer_features_complete [OF c, of anom] eng have "complete_telemetry n df"
      by simp
    then have "dropna df = df" by (rule dropna_complete)
    with eng have out: "preprocess_satellite_data tel anom = Inr (ensure_anomaly_column df)"
      by (simp add: preprocess_satellite_data_def)
    from rolling_names_not_anomaly [OF p] have "nm \<noteq> ''anomaly''" "ns \<noteq> ''anomaly''"
      by (simp_all add: nm_def ns_def)
    then have "map_of (ensure_anomaly_column df) nm = map_of df nm"
      "map_of (ensure_anomaly_column df) ns = map_of df ns"
      by (simp_all add: ensure_anomaly_column_def map_of_set_col)
    with out m0 s0 show ?thesis
      by (simp add: m_def s_def rm_def rs_def)
  qed
  have m1: "map_of df nm = Some m" and s1: "map_of df ns = Some s"
    by (simp_all add: m0 s0 m_def s_def rm_def rs_def)
  have A1: "\<forall>i < length x. i + 1 < W \<longrightarrow>
              rm ! i = NaN \<and> rs ! i = NaN \<and> m ! i = x ! i \<and> s ! i = Num 0"
    using first by blast
  have A2: "\<forall>i < length x. \<forall>vs. W \<le> i + 1 \<and> take W (drop (i + 1 - W) x) = map Num vs \<longrightarrow>
              rm ! i = Num (mean vs) \<and> rs ! i = Num (std vs)
            \<and> m ! i = Num (mean vs) \<and> s ! i = Num (std vs)"
    using full by blast
  have A3: "\<forall>i < length x. \<forall>v.
              W \<le> i + 1 \<and> (\<forall>j. i + 1 - W \<le> j \<and> j \<le> i \<longrightarrow> x ! j = Num v)
              \<longrightarrow> rm ! i = Num v \<and> rs ! i = Num 0 \<and> m ! i = Num v \<and> s ! i = Num 0"
    using const by blast
  have A4: "\<forall>n. complete_telemetry n tel \<longrightarrow>
              (\<exists>out. preprocess_satellite_data tel anom = Inr out
                 \<and> map_of out nm = Some m \<and> map_of out ns = Some s)"
    using ret by blast
  have "map_of tel p = Some x \<and> map_of df nm = Some m \<and> map_of df ns = Some s
      \<and> m = fillna_series x rm \<and> s = fillna (Num 0) rs
      \<and> length m = length x \<and> length s = length x
      \<and> (\<forall>i < length x. i + 1 < W \<longrightarrow>
            rm ! i = NaN \<and> rs ! i = NaN \<and> m ! i = x ! i \<and> s ! i = Num 0)
      \<and> (\<forall>i < length x. \<forall>vs. W \<le> i + 1 \<and> take W (drop (i + 1 - W) x) = map Num vs \<longrightarrow>
            rm ! i = Num (mean vs) \<and> rs ! i = Num (std vs)
          \<and> m ! i = Num (mean vs) \<and> s ! i = Num (std vs))
      \<and> (\<forall>i < length x. \<forall>v.
            W \<le> i + 1 \<and> (\<forall>j. i + 1 - W \<le> j \<and> j \<le> i \<longrightarrow> x ! j = Num v)
            \<longrightarrow> rm ! i = Num v \<and> rs ! i = Num 0 \<and> m ! i = Num v \<and> s ! i = Num 0)
      \<and> (\<forall>v. mean (replicate W v) = v \<and> std (replicate W v) = 0)
      \<and> (\<forall>n. complete_telemetry n tel \<longrightarrow>
            (\<exists>out. preprocess_satellite_data tel anom = Inr out
               \<and> map_of out nm = Some m \<and> map_of out ns = Some s))"
    by (intro conjI) (fact x m1 s1 m_def s_def lm ls A1 A2 A3 pure A4)+
  then show ?thesis
    unfolding nm_def ns_def W_def rm_def rs_def by (intro exI)
qed

lemma constant_power_example:
  "j \<le> 5 \<Longrightarrow> [Num 90, Num 90, Num 90, Num 90, Num 90, Num 90 :: cell] ! j = Num 90"
proof -
  assume "j \<le> 5"
  then have "j = 0 \<or> j = 1 \<or> j = 2 \<or> j = 3 \<or> j = 4 \<or> j = 5" by arith
  then show ?thesis by (elim disjE) simp_all
qed

lemma telemetry_example_columns:
  "map_of telemetry_example ''power'' = Some [Num 90, Num 90, Num 90, Num 90, Num 90, Num 90]"
  "map_of telemetry_example ''signalStrength''
     = Some [Num 85, Num 86, Num 87, Num 88, Num 89, Num 90]"
  by (simp_all add: telemetry_example_def)

theorem rolling_statistics_edges_and_constant_windows_witness:
  "\<exists>out m s m'. preprocess_satellite_data telemetry_example None = Inr out
      \<and> map_of out ''power_mean_1h'' = Some m \<and> map_of out ''power_std_1h'' = Some s
      \<and> m ! 0 = Num 90 \<and> s ! 0 = Num 0 \<and> m ! 5 = Num 90 \<and> s ! 5 = Num 0
      \<and> map_of out ''signalStrength_mean_1h'' = Some m'
      \<and> m' ! 4 = Num 89 \<and> m' ! 5 = Num (175 / 2)
      \<and> rolling_mean window_size [Num 85, Num 86, Num 87, Num 88, Num 89, Num 90] ! 4 = NaN
      \<and> rolling_mean window_size [Num 85, Num 86, Num 87, Num 88, Num 89, Num 90] ! 5
          = Num (175 / 2)"
proof -
  define pw where "pw = [Num 90, Num 90, Num 90, Num 90, Num 90, Num 90 :: cell]"
  define sg where "sg = [Num 85, Num 86, Num 87, Num 88, Num 89, Num 90 :: cell]"
  define pn where "pn = ''power'' @ ''_mean_1h''"
  define ps where "ps = ''power'' @ ''_std_1h''"
  define sn where "sn = ''signalStrength'' @ ''_mean_1h''"
  define ss where "ss = ''signalStrength'' @ ''_std_1h''"
  from engineer_features_complete [OF complete_example, of None] obtain df where
    df: "engineer_features telemetry_example None = Inr df" by blast
  have px: "''power'' \<in> set params" and py: "''signalStrength'' \<in> set params"
    by (simp_all add: params_def)
  from rolling_statistics_edges_and_constant_windows [OF df px, folded pn_def ps_def]
  obtain x mx sx where
    x: "map_of telemetry_example ''power'' = Some x"
    and "map_of df pn = Some mx" and "map_of df ps = Some sx"
    and "mx = fillna_series x (rolling_mean window_size x)"
    and "sx = fillna (Num 0) (rolling_std window_size x)"
    and "length mx = length x" and "length sx = length x"
    and x_first: "\<forall>i < length x. i + 1 < window_size \<longrightarrow>
          rolling_mean window_size x ! i = NaN \<and> rolling_std window_size x ! i = NaN
        \<and> mx ! i = x ! i \<and> sx ! i = Num 0"
    and x_full: "\<forall>i < length x. \<forall>vs.
          window_size \<le> i + 1
          \<and> take window_size (drop (i + 1 - window_size) x) = map Num vs \<longrightarrow>
          rolling_mean window_size x ! i = Num (mean vs)
        \<and> rolling_std window_size x ! i = Num (std vs)
        \<and> mx ! i = Num (mean vs) \<and> sx ! i = Num (std vs)"
    and x_const: "\<forall>i < length x. \<forall>v.
          window_size \<le> i + 1 \<and> (\<forall>j. i + 1 - window_size \<le> j \<and> j \<le> i \<longrightarrow> x ! j = Num v)
          \<longrightarrow> rolling_mean window_size x ! i = Num v
            \<and> rolling_std window_size x ! i = Num 0
            \<and> mx ! i = Num v \<and> sx ! i = Num 0"
    and "\<forall>v. mean (replicate window_size v) = v \<and> std (replicate window_size v) = 0"
    and x_ret: "\<forall>n. complete_telemetry n telemetry_example \<longrightarrow>
          (\<exists>out. preprocess_satellite_data telemetry_example None = Inr out
             \<and> map_of out pn = Some mx
             \<and> map_of out ps = Some sx)"
    by (elim exE conjE)
  from rolling_statistics_edges_and_constant_windows [OF df py, folded sn_def ss_def]
  obtain y my sy where
    y: "map_of telemetry_example ''signalStrength'' = Some y"
    and "map_of df sn = Some my" and "map_of df ss = Some sy"
    and "my = fillna_series y (rolling_mean window_size y)"
    and "sy = fillna (Num 0) (rolling_std window_size y)"
    and "length my = length y" and "length sy = length y"
    and y_first: "\<forall>i < length y. i + 1 < window_size \<longrightarrow>
          rolling_mean window_size y ! i = NaN \<and> rolling_std window_size y ! i = NaN
        \<and> my ! i = y ! i \<and> sy ! i = Num 0"
    and y_full: "\<forall>i < length y. \<forall>vs.
          window_size \<le> i + 1
          \<and> take window_size (drop (i + 1 - window_size) y) = map Num vs \<longrightarrow>
          rolling_mean window_size y ! i = Num (mean vs)
        \<and> rolling_std window_size y ! i = Num (std vs)
        \<and> my ! i = Num (mean vs) \<and> sy ! i = Num (std vs)"
    and y_const: "\<forall>i < length y. \<forall>v.
          window_size \<le> i + 1 \<and> (\<forall>j. i + 1 - window_size \<le> j \<and> j \<le> i \<longrightarrow> y ! j = Num v)
          \<longrightarrow> rolling_mean window_size y ! i = Num v
            \<and> rolling_std window_size y ! i = Num 0
            \<and> my ! i = Num v \<and> sy ! i = Num 0"
    and "\<forall>v. mean (replicate window_size v) = v \<and> std (replicate window_size v) = 0"
    and y_ret: "\<forall>n. complete_telemetry n telemetry_example \<longrightarrow>
          (\<exists>out. preprocess_satellite_data telemetry_example None = Inr out
             \<and> map_of out sn = Some my
             \<and> map_of out ss = Some sy)"
    by (elim exE conjE)
  from x have xp: "x = pw" by (simp add: telemetry_example_columns pw_def)
  from y have ys: "y = sg" by (simp add: telemetry_example_columns sg_def)
  from x_ret complete_example y_ret obtain out where
    out: "preprocess_satellite_data telemetry_example None = Inr out"
    and o1: "map_of out pn = Some mx" and o2: "map_of out ps = Some sx"
    and o3: "map_of out sn = Some my"
    by fastforce
  have "0 < length x" "0 + 1 < window_size"
    by (simp_all add: xp pw_def window_size_def)
  with x_first have "mx ! 0 = x ! 0 \<and> sx ! 0 = Num 0" by blast
  then have r0: "mx ! 0 = Num 90" "sx ! 0 = Num 0" by (simp_all add: xp pw_def)
  have "5 < length x" "window_size \<le> 5 + 1"
    "\<forall>j. 5 + 1 - window_size \<le> j \<and> j \<le> 5 \<longrightarrow> x ! j = Num 90"
    by (simp_all add: xp pw_def window_size_def constant_power_example)
  with x_const have r5: "mx ! 5 = Num 90" "sx ! 5 = Num 0" by blast+
  have "4 < length y" "4 + 1 < window_size"
    by (simp_all add: ys sg_def window_size_def)
  with y_first have "rolling_mean window_size y ! 4 = NaN \<and> my ! 4 = y ! 4" by blast
  then have q4: "rolling_mean window_size sg ! 4 = NaN" "my ! 4 = Num 89"
    by (simp_all add: ys sg_def)
  have "5 < length y" "window_size \<le> 5 + 1"
    "take window_size (drop (5 + 1 - window_size) y) = map Num [85, 86, 87, 88, 89, 90]"
    by (simp_all add: ys sg_def window_size_def)
  with y_full have "rolling_mean window_size y ! 5 = Num (mean [85, 86, 87, 88, 89, 90])
      \<and> my ! 5 = Num (mean [85, 86, 87, 88, 89, 90])"
    by blast
  then have q5: "rolling_mean window_size sg ! 5 = Num (175 / 2)" "my ! 5 = Num (175 / 2)"
    by (simp_all add: ys mean_def)
  from out o1 o2 o3 r0 r5 q4 q5 show ?thesis
    unfolding pn_def ps_def sn_def ss_def sg_def by auto
qed

text \<open>
  A row with a missing cell is dropped: of the two samples of \<open>labelled_example\<close> only
  the labelled one comes back.
\<close>

lemma labelled_example_rows:
  "map_sum id (\<lambda>df. (len_df df, map_of df ''anomaly''))
     (preprocess_satellite_data labelled_example None) = Inr (1, Some [Num 1])"
  by (simp add: labelled_example_def preprocess_satellite_data_def engineer_features_def
      add_time_features_def get_col_def set_col_def params_def add_param_features_def
      numeric_def Let_def add_interaction_features_def add_eclipse_features_def
      ensure_anomaly_column_def dropna_def bool_index_def len_df_def columns_def fillna_def
      diff_def fillna_series_def rolling_mean_def rolling_std_def window_at_def window_size_def
      ratio_def replace_val_def eclipse_change_def time_since_eclipse_change_def)

subsection \<open>Divisions and zero denominators\<close>

lemma replace_zero_no_zero: "Num 0 \<notin> set (replace_val (Num 0) (Num (1 / 10)) xs)"
  by (auto simp: replace_val_def)

lemma replace_zero_nth:
  "i < length xs \<Longrightarrow>
     replace_val (Num 0) (Num (1 / 10)) xs ! i = (if xs ! i = Num 0 then Num (1 / 10) else xs ! i)"
  by (simp add: replace_val_def)

lemma engineer_features_ratio_columns:
  assumes "engineer_features tel anom = Inr df"
  shows "\<exists>pw tm bh. map_of tel ''power'' = Some pw \<and> map_of tel ''temperature'' = Some tm
           \<and> map_of tel ''batteryHealth'' = Some bh
           \<and> map_of df ''power_temp_ratio'' = Some (ratio pw tm)
           \<and> map_of df ''battery_power_ratio'' = Some (ratio bh pw)"
  using engineer_features_columns [OF assms] by (elim exE conjE) (intro exI conjI)

text \<open>
  C9 (as amended).  The two cross-channel ratios of \<open>preprocess_satellite_data\<close> divide
  by the temperature and the power column after every 0 in it has been replaced by 0.1:
  no denominator of these two divisions is 0.
\<close>

theorem cross_channel_ratios_replace_zero_denominators:
  assumes "engineer_features tel anom = Inr df"
  shows "\<exists>pw tm bh. map_of tel ''power'' = Some pw \<and> map_of tel ''temperature'' = Some tm
           \<and> map_of tel ''batteryHealth'' = Some bh
           \<and> map_of df ''power_temp_ratio''
                = Some (map2 cell_div pw (replace_val (Num 0) (Num (1 / 10)) tm))
           \<and> map_of df ''battery_power_ratio''
                = Some (map2 cell_div bh (replace_val (Num 0) (Num (1 / 10)) pw))
           \<and> Num 0 \<notin> set (replace_val (Num 0) (Num (1 / 10)) tm)
           \<and> Num 0 \<notin> set (replace_val (Num 0) (Num (1 / 10)) pw)
           \<and> (\<forall>i < length tm. tm ! i = Num 0 \<longrightarrow>
                 replace_val (Num 0) (Num (1 / 10)) tm ! i = Num (1 / 10))
           \<and> (\<forall>i < length pw. pw ! i = Num 0 \<longrightarrow>
                 replace_val (Num 0) (Num (1 / 10)) pw ! i = Num (1 / 10))"
proof -
  from engineer_features_ratio_columns [OF assms] obtain pw tm bh where
    cols: "map_of tel ''power'' = Some pw" "map_of tel ''temperature'' = Some tm"
      "map_of tel ''batteryHealth'' = Some bh"
      "map_of df ''power_temp_ratio'' = Some (ratio pw tm)"
      "map_of df ''battery_power_ratio'' = Some (ratio bh pw)"
    by (elim exE conjE)
  have "\<forall>i < length tm. tm ! i = Num 0 \<longrightarrow>
          replace_val (Num 0) (Num (1 / 10)) tm ! i = Num (1 / 10)"
    and "\<forall>i < length pw. pw ! i = Num 0 \<longrightarrow>
          replace_val (Num 0) (Num (1 / 10)) pw ! i = Num (1 / 10)"
    by (simp_all add: replace_zero_nth)
  with cols replace_zero_no_zero [of tm] replace_zero_no_zero [of pw] show ?thesis
    unfolding ratio_def by (intro exI [of _ pw] exI [of _ tm] exI [of _ bh]) (intro conjI)
qed

lemma telemetry_example_temperature:
  "map_of telemetry_example ''temperature'' = Some [Num 25, Num 26, Num 0, Num 28, Num 29, Num 30]"
  "map_of telemetry_example ''power'' = Some [Num 90, Num 90, Num 90, Num 90, Num 90, Num 90]"
  by (simp_all add: telemetry_example_def)

theorem cross_channel_ratios_replace_zero_denominators_witness:
  "\<exists>df r. engineer_features telemetry_example None = Inr df
      \<and> map_of df ''power_temp_ratio'' = Some r \<and> r ! 2 = Num 900"
proof -
  from engineer_features_complete [OF complete_example, of None] obtain df where
    df: "engineer_features telemetry_example None = Inr df" by blast
  from cross_channel_ratios_replace_zero_denominators [OF df, unfolded telemetry_example_temperature]
  have "map_of df ''power_temp_ratio''
          = Some (map2 cell_div [Num 90, Num 90, Num 90, Num 90, Num 90, Num 90]
                   (replace_val (Num 0) (Num (1 / 10)) [Num 25, Num 26, Num 0, Num 28, Num 29, Num 30]))"
    by auto
  moreover have "map2 cell_div [Num 90, Num 90, Num 90, Num 90, Num 90, Num 90]
          (replace_val (Num 0) (Num (1 / 10)) [Num 25, Num 26, Num 0, Num 28, Num 29, Num 30]) ! 2
        = Num 900"
    by (simp add: replace_val_def)
  ultimately show ?thesis using df by blast
qed

lemma filtered_rates_example:
  "filtered_rates lifetime_example =
     Inr [(''timestamp'', [Stamp 0]), (''satellite_id'', [Str ''SAT-001'']),
          (''batteryHealth'', [Num 95]), (''day'', [Num 0]), (''current_battery_rate'', [Num 0])]"
  by (simp add: filtered_rates_def lifetime_example_def get_col_def numeric_def set_col_def
      day_column_def current_battery_rate_def group_diff_def fillna_def bool_index_def Let_def)

theorem lifetime_divides_by_zero_rate:
  "map_sum id eol_operands (filtered_rates lifetime_example) = Inr [(Num 35, Num 0)]
   \<and> map_sum id (\<lambda>df. map (\<lambda>(a, b). cell_div a b) (eol_operands df))
        (filtered_rates lifetime_example) = Inr [PInf]
   \<and> map_sum id (\<lambda>df. map_of df ''days_to_battery_eol'') (lifetime_labels lifetime_example)
        = Inr (Some [Num 500])"
  by (simp add: filtered_rates_example lifetime_labels_def eol_operands_def battery_eol_def
      days_to_battery_eol_def np_where_def set_col_def)

subsection \<open>The anomaly column\<close>

text \<open>
  Every table that \<open>preprocess_satellite_data\<close> returns has the anomaly column, which the
  two dataset builders read.
\<close>

lemma ensure_anomaly_column_present: "map_of (ensure_anomaly_column df) ''anomaly'' \<noteq> None"
proof (cases "''anomaly'' \<in> set (columns df)")
  case True
  then have "map_of df ''anomaly'' \<noteq> None"
    by (simp add: columns_def map_of_eq_None_iff)
  with True show ?thesis by (simp add: ensure_anomaly_column_def)
next
  case False
  then show ?thesis by (simp add: ensure_anomaly_column_def map_of_set_col)
qed

lemma preprocess_has_anomaly_column:
  "preprocess_satellite_data telemetry anomaly_file = Inr df \<Longrightarrow> \<exists>a. map_of df ''anomaly'' = Some a"
  using ensure_anomaly_column_present
  by (auto simp: preprocess_satellite_data_def split: sum.splits)

section \<open>Properties of the generator\<close>

lemma clip_bounds: "lo \<le> hi \<Longrightarrow> lo \<le> clip lo hi x \<and> clip lo hi x \<le> hi"
  by (simp add: clip_def)

lemma length_update_rows: "length (update_rows a b f xs) = length xs"
  by (simp add: update_rows_def)

lemma update_rows_nth:
  "i < length xs \<Longrightarrow>
     update_rows a b f xs ! i = (if a \<le> i \<and> i \<le> b then f (xs ! i) else xs ! i)"
  by (simp add: update_rows_def)

lemma update_rows_all:
  assumes "list_all P xs" and "\<And>x. P x \<Longrightarrow> P (f x)"
  shows "list_all P (update_rows a b f xs)"
  using assms by (auto simp: list_all_length length_update_rows update_rows_nth)

lemma list_update_all:
  assumes "list_all P ys" and "i < length ys \<Longrightarrow> P v"
  shows "list_all P (ys[i := v])"
proof (cases "i < length ys")
  case True
  with assms show ?thesis
    by (auto simp: list_all_length nth_list_update)
next
  case False
  then have "length ys \<le> i" by simp
  then have "ys[i := v] = ys" by (rule list_update_beyond)
  with assms(1) show ?thesis by simp
qed

lemma fold_update_all:
  assumes "list_all P xs"
    and "\<And>i ys. list_all P ys \<Longrightarrow> i < length ys \<Longrightarrow> P (g i ys)"
  shows "list_all P (fold (\<lambda>i ys. ys[i := g i ys]) idxs xs)"
  using assms(1)
proof (induction idxs arbitrary: xs)
  case Nil
  then show ?case by simp
next
  case (Cons i idxs)
  have "list_all P (xs[i := g i xs])"
    by (rule list_update_all [OF Cons.prems]) (rule assms(2) [OF Cons.prems])
  from Cons.IH [OF this] show ?case by simp
qed

lemma length_fold_update: "length (fold (\<lambda>i ys. ys[i := g i ys]) idxs xs) = length xs"
  by (induction idxs arbitrary: xs) simp_all

lemma clipped_percent: "list_all percent (map (\<lambda>i. clip 0 100 (f i)) idxs)"
  using clip_bounds [of 0 100] by (simp add: list_all_iff percent_def)

lemma power_column_percent: "list_all percent (power_column samples interval ns)"
  unfolding power_column_def
  by (rule update_rows_all [OF clipped_percent]) (simp add: percent_def)

lemma signal_column_percent: "list_all percent (signal_column samples interval ns)"
  unfolding signal_column_def
  by (rule update_rows_all [OF clipped_percent]) (simp add: percent_def)

lemma battery_column_percent: "list_all percent (battery_column samples ns)"
  unfolding battery_column_def battery_decay_def
proof (rule fold_update_all [OF clipped_percent])
  fix i and ys :: "real list"
  assume "list_all percent ys" "i < length ys"
  then have p: "percent (ys ! i)" by (simp add: list_all_length)
  have "0 \<le> (997 / 1000 :: real) ^ k" "(997 / 1000 :: real) ^ k \<le> 1" for k
    by (simp_all add: power_le_one)
  then have "0 \<le> ys ! i * (997 / 1000) ^ k" "ys ! i * (997 / 1000) ^ k \<le> 100" for k
    using p by (auto simp: percent_def intro: mult_nonneg_nonneg mult_left_le [THEN order_trans])
  then show "percent (ys ! i * (997 / 1000) ^ (i - fraction_of samples 60))"
    by (simp add: percent_def)
qed

lemma memory_column_percent: "list_all percent (memory_column samples interval ns)"
  unfolding memory_column_def memory_leak_def
proof (rule fold_update_all [OF clipped_percent])
  fix i and ys :: "real list"
  assume a: "list_all percent ys" "i < length ys"
  show "percent (if 0 < i then min 95 (ys ! (i - 1) + 1 / 2) else 80)"
  proof (cases "0 < i")
    case True
    with a have "percent (ys ! (i - 1))" by (simp add: list_all_length)
    with True show ?thesis by (simp add: percent_def)
  next
    case False
    then show ?thesis by (simp add: percent_def)
  qed
qed

lemma length_temperature_column: "length (temperature_column samples interval ns) = samples"
  by (simp add: temperature_column_def length_update_rows)

lemma temperature_column_nth:
  "i < samples \<Longrightarrow>
     temperature_column samples interval ns ! i =
       (if overheated samples i
        then clip (- 10) 50 (temperature_raw samples interval ns i) + 15
        else clip (- 10) 50 (temperature_raw samples interval ns i))"
  by (simp add: temperature_column_def update_rows_nth overheated_def)


lemma temperature_column_range:
  assumes "i < samples"
  shows "if overheated samples i
         then 5 \<le> temperature_column samples interval ns ! i
              \<and> temperature_column samples interval ns ! i \<le> 65
         else - 10 \<le> temperature_column samples interval ns ! i
              \<and> temperature_column samples interval ns ! i \<le> 50"
  using clip_bounds [of "- 10" 50 "temperature_raw samples interval ns i"]
  by (simp add: temperature_column_nth [OF assms])

lemma map_of_set_cell: "k \<noteq> name \<Longrightarrow> map_of (set_cell name i v df) k = map_of df k"
  by (simp add: set_cell_def map_of_set_col)

lemma flag_anomaly_other:
  assumes "k \<noteq> ''anomaly''" "k \<noteq> ''anomaly_parameter''" "k \<noteq> ''root_cause''"
  shows "map_of (flag_anomaly ev df) k = map_of df k"
  using assms by (simp add: flag_anomaly_def map_of_set_cell split: option.splits)

lemma fold_flag_anomaly_other:
  assumes "k \<noteq> ''anomaly''" "k \<noteq> ''anomaly_parameter''" "k \<noteq> ''root_cause''"
  shows "map_of (fold flag_anomaly evs df) k = map_of df k"
  by (induction evs arbitrary: df) (simp_all add: flag_anomaly_other [OF assms])

lemma generate_channels:
  assumes "generate_satellite_telemetry days interval sid start ns = Inr (df, anomalies)"
  shows "map_of df ''power'' = Some (map Num (power_column ((days * 24 * 60) div interval) interval ns))"
    and "map_of df ''temperature''
           = Some (map Num (temperature_column ((days * 24 * 60) div interval) interval ns))"
    and "map_of df ''batteryHealth''
           = Some (map Num (battery_column ((days * 24 * 60) div interval) ns))"
    and "map_of df ''signalStrength''
           = Some (map Num (signal_column ((days * 24 * 60) div interval) interval ns))"
    and "map_of df ''memoryUsage''
           = Some (map Num (memory_column ((days * 24 * 60) div interval) interval ns))"
  using assms
  by (auto simp: generate_satellite_telemetry_def Let_def fold_flag_anomaly_other
      split: if_splits)


text \<open>
  C3 (as amended).  In every table returned by \<open>generate_satellite_telemetry\<close>, every
  value of power, batteryHealth, signalStrength and memoryUsage lies within 0..100, the
  rows of the fault windows included.  The temperature is clipped to -10..50 before the
  overheating fault adds 15 to the rows of its window: it lies within 5..65 in those
  rows and within -10..50 in all others.
\<close>

theorem generated_channels_within_ranges:
  assumes "generate_satellite_telemetry days interval sid start ns = Inr (df, anomalies)"
  shows "\<exists>pw tm bh sg mu.
           map_of df ''power'' = Some (map Num pw) \<and> map_of df ''temperature'' = Some (map Num tm)
         \<and> map_of df ''batteryHealth'' = Some (map Num bh)
         \<and> map_of df ''signalStrength'' = Some (map Num sg)
         \<and> map_of df ''memoryUsage'' = Some (map Num mu)
         \<and> list_all percent pw \<and> list_all percent bh \<and> list_all percent sg \<and> list_all percent mu
         \<and> length tm = (days * 24 * 60) div interval
         \<and> (\<forall>i < length tm. if overheated (length tm) i
                              then 5 \<le> tm ! i \<and> tm ! i \<le> 65
                              else - 10 \<le> tm ! i \<and> tm ! i \<le> 50)"
proof -
  define n where "n = (days * 24 * 60) div interval"
  note ch = generate_channels [OF assms, folded n_def]
  have "\<forall>i < length (temperature_column n interval ns).
          if overheated (length (temperature_column n interval ns)) i
          then 5 \<le> temperature_column n interval ns ! i \<and> temperature_column n interval ns ! i \<le> 65
          else - 10 \<le> temperature_column n interval ns ! i
               \<and> temperature_column n interval ns ! i \<le> 50"
    using temperature_column_range [of _ n interval ns]
    by (simp add: length_temperature_column)
  with ch power_column_percent [of n interval ns] battery_column_percent [of n ns]
    signal_column_percent [of n interval ns] memory_column_percent [of n interval ns]
    length_temperature_column [of n interval ns]
  show ?thesis
    unfolding n_def [symmetric]
    by (intro exI [of _ "power_column n interval ns"]
        exI [of _ "temperature_column n interval ns"] exI [of _ "battery_column n ns"]
        exI [of _ "signal_column n interval ns"] exI [of _ "memory_column n interval ns"])
       (intro conjI)
qed

lemma sin_two_fifths_pi: "17 / 20 \<le> sin (2 * pi / 5)"
proof -
  have "(17 / 10 :: real)\<^sup>2 \<le> 3" by (simp add: power2_eq_square)
  then have "17 / 10 \<le> sqrt 3" by (rule real_le_rsqrt)
  then have "17 / 20 \<le> sin (pi / 3)" by (simp add: sin_60)
  also have "sin (pi / 3) \<le> sin (2 * pi / 5)"
  proof (rule sin_monotone_2pi_le)
    show "- (pi / 2) \<le> pi / 3" using pi_gt_zero by linarith
    show "pi / 3 \<le> 2 * pi / 5" using pi_gt_zero by linarith
    show "2 * pi / 5 \<le> pi / 2" using pi_gt_zero by linarith
  qed
  finally show ?thesis .
qed

lemma example_generated:
  "\<exists>df anomalies. generate_satellite_telemetry 1 399 ''SAT-001'' 0 example_noise = Inr (df, anomalies)"
  by (simp add: generate_satellite_telemetry_def Let_def)

lemma example_temperature_raw: "35 < temperature_raw 3 399 example_noise (Suc 0)"
proof -
  have pos: "orbit_position 399 (Suc 0) = 1 / 5"
    by (simp add: orbit_position_def orbit_period_minutes_def)
  have angle: "orbit_position 399 (Suc 0) * 2 * pi = 2 * pi / 5"
    unfolding pos by simp
  have ecl: "in_eclipse_flag 399 (Suc 0) = 0"
    unfolding in_eclipse_flag_def pos by simp
  have "temperature_raw 3 399 example_noise (Suc 0)
          = 2675 / 100 + (105 / 10) * sin (2 * pi / 5)"
    unfolding temperature_raw_def power_raw_def angle ecl
    by (simp add: linspace_def example_noise_def algebra_simps)
  with sin_two_fifths_pi show ?thesis by simp
qed

text \<open>
  The double products at work: for 90 samples the signal fault starts at row 62, not 63;
  for the three samples of the example run the overheating window is row 1 alone.
\<close>

lemma fraction_of_examples:
  "fraction_of 90 70 = 62" "fraction_of 3 40 = 1" "fraction_of 3 2 = 0"
  by (simp_all add: fraction_of_def int_of_product_def double_percent_def double_round_def
      round_half_even_def Let_def)

lemma example_temperature_row: "50 < temperature_column 3 399 example_noise ! Suc 0"
proof -
  have "overheated 3 (Suc 0)" by (simp add: overheated_def fraction_of_examples)
  then have "temperature_column 3 399 example_noise ! Suc 0
               = clip (- 10) 50 (temperature_raw 3 399 example_noise (Suc 0)) + 15"
    by (simp add: temperature_column_nth)
  with example_temperature_raw show ?thesis by (simp add: clip_def)
qed

theorem generated_temperature_above_clip_range:
  "map_sum id (\<lambda>r. map_of (fst r) ''temperature'')
       (generate_satellite_telemetry 1 399 ''SAT-001'' 0 example_noise)
     = Inr (Some (map Num (temperature_column 3 399 example_noise)))
   \<and> 50 < temperature_column 3 399 example_noise ! 1"
proof -
  from example_generated obtain df anomalies where
    g: "generate_satellite_telemetry 1 399 ''SAT-001'' 0 example_noise = Inr (df, anomalies)"
    by blast
  from generate_channels(2) [OF g]
  have "map_of df ''temperature'' = Some (map Num (temperature_column 3 399 example_noise))"
    by simp
  with g example_temperature_row show ?thesis by simp
qed

theorem generated_channels_within_ranges_witness:
  "\<exists>df anomalies pw tm.
     generate_satellite_telemetry 1 399 ''SAT-001'' 0 example_noise = Inr (df, anomalies)
     \<and> map_of df ''power'' = Some (map Num pw) \<and> list_all percent pw
     \<and> map_of df ''temperature'' = Some (map Num tm) \<and> length tm = 3
     \<and> 5 \<le> tm ! 1 \<and> tm ! 1 \<le> 65 \<and> - 10 \<le> tm ! 0 \<and> tm ! 0 \<le> 50"
proof -
  from example_generated obtain df anomalies where
    g: "generate_satellite_telemetry 1 399 ''SAT-001'' 0 example_noise = Inr (df, anomalies)"
    by blast
  from generated_channels_within_ranges [OF g] obtain pw tm where
    pw: "map_of df ''power'' = Some (map Num pw)" "list_all percent pw" and
    tm: "map_of df ''temperature'' = Some (map Num tm)" "length tm = (1 * 24 * 60) div 399" and
    r: "\<forall>i < length tm. if overheated (length tm) i
                          then 5 \<le> tm ! i \<and> tm ! i \<le> 65
                          else - 10 \<le> tm ! i \<and> tm ! i \<le> 50"
    by (elim exE conjE)
  from tm(2) have l: "length tm = 3" by simp
  have o: "overheated 3 1" "\<not> overheated 3 0"
    by (simp_all add: overheated_def fraction_of_examples)
  from r l o have "5 \<le> tm ! 1 \<and> tm ! 1 \<le> 65" "- 10 \<le> tm ! 0 \<and> tm ! 0 \<le> 50"
    by (auto simp: l dest: spec [of _ 1] spec [of _ 0])
  with g pw tm(1) l show ?thesis by blast
qed

section \<open>Properties of the anomaly-detection trainer\<close>

lemma length_fold_set: "length (fold (\<lambda>i ys. ys[i := v]) idx xs) = length xs"
  by (induction idx arbitrary: xs) simp_all

lemma fold_set_nth:
  "k < length xs \<Longrightarrow>
     fold (\<lambda>i ys. ys[i := v]) idx xs ! k = (if k \<in> set idx then v else xs ! k)"
  by (induction idx arbitrary: xs) (auto simp: length_fold_set nth_list_update)

lemma flipped_labels:
  "fold (\<lambda>i ys. ys[i := 1]) idx (replicate n (0::int))
     = map (\<lambda>k. if k \<in> set idx then 1 else 0) [0 ..< n]"
  by (rule nth_equalityI) (simp_all add: length_fold_set fold_set_nth)

lemma count_flipped:
  assumes "distinct idx" "list_all (\<lambda>i. i < n) idx"
  shows "count_list (map (\<lambda>k. if k \<in> set idx then 1 else (0::int)) [0 ..< n]) 1 = length idx"
proof -
  have "count_list (map (\<lambda>k. if k \<in> set idx then 1 else (0::int)) [0 ..< n]) 1
          = length (filter (\<lambda>k. k \<in> set idx) [0 ..< n])"
    by (induction n) simp_all
  also have "\<dots> = card ({k. k \<in> set idx} \<inter> set [0 ..< n])"
    by (rule distinct_length_filter) simp
  also have "{k. k \<in> set idx} \<inter> set [0 ..< n] = set idx"
    using assms(2) by (auto simp: list_all_iff)
  also have "card (set idx) = length idx"
    using assms(1) by (rule distinct_card)
  finally show ?thesis .
qed

lemma remdups_replicate_Suc: "remdups (replicate (Suc n) x) = [x]"
  by (induction n) simp_all

lemma np_unique_replicate: "0 < n \<Longrightarrow> np_unique (replicate n x) = [x]"
  using remdups_replicate_Suc [of "n - 1" x] by (simp add: np_unique_def)

lemma count_replicate_same: "count_list (replicate n x) x = n"
  by (induction n) simp_all

lemma count_unflipped:
  assumes "distinct idx" "list_all (\<lambda>i. i < n) idx"
  shows "count_list (map (\<lambda>k. if k \<in> set idx then 1 else (0::int)) [0 ..< n]) 0
           = n - length idx"
proof -
  have "count_list (map (\<lambda>k. if k \<in> set idx then 1 else (0::int)) [0 ..< n]) 0
          = length (filter (\<lambda>k. \<not> k \<in> set idx) [0 ..< n])"
    by (induction n) simp_all
  moreover have "length (filter (\<lambda>k. k \<in> set idx) [0 ..< n])
                   + length (filter (\<lambda>k. \<not> k \<in> set idx) [0 ..< n]) = length [0 ..< n]"
    by (rule sum_length_filter_compl)
  moreover have "length (filter (\<lambda>k. k \<in> set idx) [0 ..< n]) = length idx"
  proof -
    have "length (filter (\<lambda>k. k \<in> set idx) [0 ..< n]) = card ({k. k \<in> set idx} \<inter> set [0 ..< n])"
      by (rule distinct_length_filter) simp
    also have "{k. k \<in> set idx} \<inter> set [0 ..< n] = set idx"
      using assms(2) by (auto simp: list_all_iff)
    also have "card (set idx) = length idx"
      using assms(1) by (rule distinct_card)
    finally show ?thesis .
  qed
  ultimately show ?thesis by simp
qed

lemma np_unique_two_classes:
  assumes "set y \<subseteq> {0, 1}" "0 < count_list y 0" "0 < count_list y 1"
  shows "np_unique y = [0, 1]"
proof -
  from assms(2) have "0 \<in> set y" by (metis count_notin less_irrefl)
  moreover from assms(3) have "1 \<in> set y" by (metis count_notin less_irrefl)
  ultimately have "set y = {0, 1}" using assms(1) by auto
  hence "sorted_list_of_set (set y) = [0, 1]" by simp
  thus ?thesis by (simp add: np_unique_def sorted_list_of_set_sort_remdups)
qed

lemma choice_of_all:
  assumes "length idx = n" "distinct idx" "list_all (\<lambda>i. i < n) idx"
  shows "set idx = {..< n}"
proof (rule card_subset_eq)
  show "finite {..< n}" by simp
  show "set idx \<subseteq> {..< n}" using assms(3) by (auto simp: list_all_iff)
  show "card (set idx) = card {..< n}" using assms(1, 2) by (simp add: distinct_card)
qed

lemma all_zero_run:
  assumes "5 \<le> n"
  shows "handle_class_imbalance (replicate n 0) idx =
          Inr (map (\<lambda>k. if k \<in> set idx then 1 else 0) [0 ..< n],
            Some (compute_class_weight (map (\<lambda>k. if k \<in> set idx then 1 else 0) [0 ..< n])),
            [Text ''Warning: Only one class found in training data! This will not work for binary classification.'',
             Text ''Please ensure your data has both normal and anomaly examples.'',
             Text ''Generating synthetic anomaly examples for training...'',
             SyntheticClassWeights (compute_class_weight (map (\<lambda>k. if k \<in> set idx then 1 else 0) [0 ..< n])),
             ValueCounts (bincount (map (\<lambda>k. if k \<in> set idx then 1 else 0) [0 ..< n]))])"
proof -
  from assms have pos: "0 < n" by simp
  have one: "\<not> 1 < length (np_unique (replicate n (0::int)))"
    by (simp add: np_unique_replicate [OF pos])
  have zero: "list_all (\<lambda>v. v = 0) (replicate n (0::int))"
    by (simp add: list_all_iff)
  have enough: "\<not> length (replicate n (0::int)) < max 5 (length (replicate n (0::int)) div 20)"
    using assms by simp
  show ?thesis
    unfolding handle_class_imbalance_def Let_def flipped_labels [symmetric]
    using one zero enough by (simp only: if_False if_True append_Cons append_Nil)
qed

lemma all_zero_too_short:
  assumes "n < 5"
  shows "handle_class_imbalance (replicate n 0) idx =
           Inl (ValueError ''Cannot take a larger sample than population'')"
proof -
  have one: "\<not> 1 < length (np_unique (replicate n (0::int)))"
  proof (cases "n = 0")
    case True
    thus ?thesis by (simp add: np_unique_def)
  next
    case False
    hence "np_unique (replicate n (0::int)) = [0]" by (intro np_unique_replicate) simp
    thus ?thesis by simp
  qed
  have zero: "list_all (\<lambda>v. v = 0) (replicate n (0::int))"
    by (simp add: list_all_iff)
  have short: "length (replicate n (0::int)) < max 5 (length (replicate n (0::int)) div 20)"
    using assms by simp
  show ?thesis
    unfolding handle_class_imbalance_def Let_def
    using one zero short by (simp only: if_False if_True)
qed

lemma single_other_class_run:
  assumes "0 < m" "c \<noteq> 0"
  shows "handle_class_imbalance (replicate m c) idx =
           Inr (replicate m c, None,
             [Text ''Warning: Only one class found in training data! This will not work for binary classification.'',
              Text ''Please ensure your data has both normal and anomaly examples.''])"
proof -
  have one: "\<not> 1 < length (np_unique (replicate m c))"
    by (simp add: np_unique_replicate [OF assms(1)])
  have zero: "\<not> list_all (\<lambda>v. v = 0) (replicate m c)"
    using assms by (simp add: list_all_iff)
  show ?thesis
    unfolding handle_class_imbalance_def Let_def
    using one zero by (simp only: if_False)
qed

lemma two_class_weights:
  assumes "np_unique y = [0, 1]"
  shows "compute_class_weight y
           = [real (length y) / (2 * real (count_list y 0)),
              real (length y) / (2 * real (count_list y 1))]"
  by (simp add: compute_class_weight_def assms)

text \<open>
  C5 (as amended).  For every training label array of \<open>n \<ge> 5\<close> labels that are all 0, the
  trainer prints its two warning lines and its notice, sets the labels at the
  \<open>k = max 5 (n div 20)\<close> positions drawn to 1 and leaves the others 0 (\<open>int(0.05 * n)\<close> is
  \<open>n div 20\<close> for every array length below \<open>2 ^ 53\<close>), and computes the class weights from
  the flipped labels: for \<open>n \<ge> 6\<close> both classes are present, with the weights
  \<open>n / (2 (n - k))\<close> and \<open>n / (2 k)\<close>; for \<open>n = 5\<close> all five labels become 1 and the only
  weight is 1; for \<open>n < 5\<close> the draw raises ValueError.  An array whose labels are all one
  value other than 0 is returned as it is, with the two warning lines and no class weights.
\<close>

theorem all_zero_labels_get_synthetic_anomalies:
  "(5 \<le> n \<and> valid_choice n (max 5 (n div 20)) anomaly_indices \<longrightarrow>
      (\<exists>y. handle_class_imbalance (replicate n 0) anomaly_indices =
              Inr (y, Some (compute_class_weight y),
                [Text ''Warning: Only one class found in training data! This will not work for binary classification.'',
                 Text ''Please ensure your data has both normal and anomaly examples.'',
                 Text ''Generating synthetic anomaly examples for training...'',
                 SyntheticClassWeights (compute_class_weight y),
                 ValueCounts (bincount y)])
         \<and> length y = n
         \<and> (\<forall>k < n. y ! k = (if k \<in> set anomaly_indices then 1 else 0))
         \<and> count_list y 1 = max 5 (n div 20)
         \<and> count_list y 0 = n - max 5 (n div 20)
         \<and> (6 \<le> n \<longrightarrow>
              np_unique y = [0, 1]
              \<and> compute_class_weight y
                  = [real n / (2 * real (n - max 5 (n div 20))),
                     real n / (2 * real (max 5 (n div 20)))])
         \<and> (n = 5 \<longrightarrow>
              y = replicate 5 1 \<and> np_unique y = [1] \<and> compute_class_weight y = [1])))
   \<and> (n < 5 \<longrightarrow>
        handle_class_imbalance (replicate n 0) anomaly_indices =
          Inl (ValueError ''Cannot take a larger sample than population''))
   \<and> (0 < m \<and> c \<noteq> 0 \<longrightarrow>
        handle_class_imbalance (replicate m c) anomaly_indices =
          Inr (replicate m c, None,
            [Text ''Warning: Only one class found in training data! This will not work for binary classification.'',
             Text ''Please ensure your data has both normal and anomaly examples.'']))"
proof (intro conjI impI)
  assume "n < 5"
  thus "handle_class_imbalance (replicate n 0) anomaly_indices =
          Inl (ValueError ''Cannot take a larger sample than population'')"
    by (rule all_zero_too_short)
next
  assume "0 < m \<and> c \<noteq> 0"
  hence "0 < m" "c \<noteq> 0" by simp_all
  thus "handle_class_imbalance (replicate m c) anomaly_indices =
          Inr (replicate m c, None,
            [Text ''Warning: Only one class found in training data! This will not work for binary classification.'',
             Text ''Please ensure your data has both normal and anomaly examples.''])"
    by (rule single_other_class_run)
next
  assume a: "5 \<le> n \<and> valid_choice n (max 5 (n div 20)) anomaly_indices"
  define k where "k = max 5 (n div 20)"
  define y where "y = map (\<lambda>k. if k \<in> set anomaly_indices then 1 else (0::int)) [0 ..< n]"
  define w1 where "w1 = Text ''Warning: Only one class found in training data! This will not work for binary classification.''"
  define w2 where "w2 = Text ''Please ensure your data has both normal and anomaly examples.''"
  define w3 where "w3 = Text ''Generating synthetic anomaly examples for training...''"
  from a have n: "5 \<le> n" and li: "length anomaly_indices = k" and di: "distinct anomaly_indices"
    and bi: "list_all (\<lambda>i. i < n) anomaly_indices"
    by (simp_all add: valid_choice_def k_def)
  have run: "handle_class_imbalance (replicate n 0) anomaly_indices =
               Inr (y, Some (compute_class_weight y),
                 [w1, w2, w3, SyntheticClassWeights (compute_class_weight y), ValueCounts (bincount y)])"
    unfolding y_def w1_def w2_def w3_def using n by (rule all_zero_run)
  have len: "length y = n" by (simp add: y_def)
  have nth: "\<forall>j < n. y ! j = (if j \<in> set anomaly_indices then 1 else 0)"
    by (simp add: y_def)
  have c1: "count_list y 1 = k"
    unfolding y_def using di bi li by (simp add: count_flipped)
  have c0: "count_list y 0 = n - k"
    unfolding y_def using di bi li by (simp add: count_unflipped)
  have sub: "set y \<subseteq> {0, 1}" by (auto simp: y_def)
  have big: "6 \<le> n \<longrightarrow> np_unique y = [0, 1]
               \<and> compute_class_weight y = [real n / (2 * real (n - k)), real n / (2 * real k)]"
  proof
    assume "6 \<le> n"
    hence "k < n" "0 < k" by (simp_all add: k_def)
    hence u: "np_unique y = [0, 1]"
      using sub c0 c1 by (intro np_unique_two_classes) simp_all
    from two_class_weights [OF u] have "compute_class_weight y = [real n / (2 * real (n - k)), real n / (2 * real k)]"
      by (simp only: len c0 c1)
    with u show "np_unique y = [0, 1]
               \<and> compute_class_weight y = [real n / (2 * real (n - k)), real n / (2 * real k)]"
      by (rule conjI)
  qed
  have five: "n = 5 \<longrightarrow> y = replicate 5 1 \<and> np_unique y = [1] \<and> compute_class_weight y = [1]"
  proof
    assume n5: "n = 5"
    hence "k = n" by (simp add: k_def)
    with li di bi have "set anomaly_indices = {..< n}" by (intro choice_of_all) simp_all
    hence "y = replicate n 1" unfolding y_def by (intro nth_equalityI) simp_all
    hence y5: "y = replicate 5 1" using n5 by simp
    have u: "np_unique (replicate 5 (1::int)) = [1]" by (rule np_unique_replicate) simp
    have "compute_class_weight (replicate 5 (1::int)) = [1]"
      unfolding compute_class_weight_def u by (simp add: count_replicate_same)
    with y5 u show "y = replicate 5 1 \<and> np_unique y = [1] \<and> compute_class_weight y = [1]"
      by simp
  qed
  show "\<exists>y. handle_class_imbalance (replicate n 0) anomaly_indices =
              Inr (y, Some (compute_class_weight y),
                [Text ''Warning: Only one class found in training data! This will not work for binary classification.'',
                 Text ''Please ensure your data has both normal and anomaly examples.'',
                 Text ''Generating synthetic anomaly examples for training...'',
                 SyntheticClassWeights (compute_class_weight y),
                 ValueCounts (bincount y)])
         \<and> length y = n
         \<and> (\<forall>k < n. y ! k = (if k \<in> set anomaly_indices then 1 else 0))
         \<and> count_list y 1 = max 5 (n div 20)
         \<and> count_list y 0 = n - max 5 (n div 20)
         \<and> (6 \<le> n \<longrightarrow>
              np_unique y = [0, 1]
              \<and> compute_class_weight y
                  = [real n / (2 * real (n - max 5 (n div 20))),
                     real n / (2 * real (max 5 (n div 20)))])
         \<and> (n = 5 \<longrightarrow>
              y = replicate 5 1 \<and> np_unique y = [1] \<and> compute_class_weight y = [1])"
    unfolding w1_def [symmetric] w2_def [symmetric] w3_def [symmetric] k_def [symmetric]
    by (rule exI [of _ y]) (intro conjI; fact run len nth c1 c0 big five)
qed

theorem all_zero_labels_get_synthetic_anomalies_witness:
  "(\<exists>y. handle_class_imbalance (replicate 6 0) [0, 2, 3, 4, 5] =
           Inr (y, Some [3, 3 / 5],
             [Text ''Warning: Only one class found in training data! This will not work for binary classification.'',
              Text ''Please ensure your data has both normal and anomaly examples.'',
              Text ''Generating synthetic anomaly examples for training...'',
              SyntheticClassWeights [3, 3 / 5],
              ValueCounts (bincount y)])
      \<and> y = [1, 0, 1, 1, 1, 1] \<and> np_unique y = [0, 1])
   \<and> (\<exists>y. handle_class_imbalance (replicate 5 0) [4, 2, 0, 1, 3] = Inr (y, Some [1],
             [Text ''Warning: Only one class found in training data! This will not work for binary classification.'',
              Text ''Please ensure your data has both normal and anomaly examples.'',
              Text ''Generating synthetic anomaly examples for training...'',
              SyntheticClassWeights [1],
              ValueCounts (bincount y)])
      \<and> y = [1, 1, 1, 1, 1])
   \<and> handle_class_imbalance (replicate 3 0) [] =
       Inl (ValueError ''Cannot take a larger sample than population'')
   \<and> handle_class_imbalance (replicate 4 1) [] =
       Inr ([1, 1, 1, 1], None,
         [Text ''Warning: Only one class found in training data! This will not work for binary classification.'',
          Text ''Please ensure your data has both normal and anomaly examples.''])"
proof -
  define w1 where "w1 = Text ''Warning: Only one class found in training data! This will not work for binary classification.''"
  define w2 where "w2 = Text ''Please ensure your data has both normal and anomaly examples.''"
  define w3 where "w3 = Text ''Generating synthetic anomaly examples for training...''"
  define e where "e = ValueError ''Cannot take a larger sample than population''"
  note T6 = all_zero_labels_get_synthetic_anomalies [of 6 "[0, 2, 3, 4, 5]" 4 1,
      folded w1_def w2_def w3_def e_def]
  note T5 = all_zero_labels_get_synthetic_anomalies [of 5 "[4, 2, 0, 1, 3]" 4 1,
      folded w1_def w2_def w3_def e_def]
  note T3 = all_zero_labels_get_synthetic_anomalies [of 3 "[]" 4 1,
      folded w1_def w2_def w3_def e_def]
  have v6: "(5::nat) \<le> 6 \<and> valid_choice 6 (max 5 (6 div 20)) [0, 2, 3, 4, 5]"
    by (simp add: valid_choice_def)
  have v5: "(5::nat) \<le> 5 \<and> valid_choice 5 (max 5 (5 div 20)) [4, 2, 0, 1, 3]"
    by (simp add: valid_choice_def)
  have v3: "(3::nat) < 5" by simp
  have v4: "(0::nat) < 4 \<and> (1::int) \<noteq> 0" by simp
  from T6 [THEN conjunct1, THEN mp, OF v6] obtain y where
    r: "handle_class_imbalance (replicate 6 0) [0, 2, 3, 4, 5] =
          Inr (y, Some (compute_class_weight y),
            [w1, w2, w3, SyntheticClassWeights (compute_class_weight y), ValueCounts (bincount y)])"
    and l: "length y = 6"
    and k: "\<forall>k < 6. y ! k = (if k \<in> set [0, 2, 3, 4, 5] then 1 else 0)"
    and b: "6 \<le> (6::nat) \<longrightarrow> np_unique y = [0, 1]
              \<and> compute_class_weight y
                  = [real 6 / (2 * real (6 - max 5 (6 div 20))),
                     real 6 / (2 * real (max 5 (6 div 20 :: nat)))]"
    by (elim exE conjE)
  have u6: "[0 ..< 6] = [0, 1, 2, 3, 4, 5 :: nat]" by code_simp
  have "y ! 0 = 1" "y ! 1 = 0" "y ! 2 = 1" "y ! 3 = 1" "y ! 4 = 1" "y ! 5 = 1"
    using k by simp_all
  moreover have "y = map ((!) y) [0 ..< length y]" by (simp add: map_nth)
  ultimately have y: "y = [1, 0, 1, 1, 1, 1]"
    unfolding l u6 by simp
  from b have u: "np_unique y = [0, 1]" and w: "compute_class_weight y = [3, 3 / 5]"
    by simp_all
  have A: "\<exists>y. handle_class_imbalance (replicate 6 0) [0, 2, 3, 4, 5] =
           Inr (y, Some [3, 3 / 5],
             [w1, w2, w3, SyntheticClassWeights [3, 3 / 5], ValueCounts (bincount y)])
      \<and> y = [1, 0, 1, 1, 1, 1] \<and> np_unique y = [0, 1]"
    using r [unfolded w] y u by (intro exI [of _ y] conjI)
  from T5 [THEN conjunct1, THEN mp, OF v5] obtain y' where
    r': "handle_class_imbalance (replicate 5 0) [4, 2, 0, 1, 3] =
          Inr (y', Some (compute_class_weight y'),
            [w1, w2, w3, SyntheticClassWeights (compute_class_weight y'), ValueCounts (bincount y')])"
    and f: "(5::nat) = 5 \<longrightarrow> y' = replicate 5 1 \<and> np_unique y' = [1] \<and> compute_class_weight y' = [1]"
    by (elim exE conjE)
  have "(5::nat) = 5" by (rule refl)
  with f have g: "y' = replicate 5 1 \<and> np_unique y' = [1] \<and> compute_class_weight y' = [1]"
    by (rule mp)
  note w' = g [THEN conjunct2, THEN conjunct2]
  have "replicate 5 (1::int) = [1, 1, 1, 1, 1]" by (simp add: numeral_eq_Suc)
  with g have y': "y' = [1, 1, 1, 1, 1]" by simp
  have B: "\<exists>y. handle_class_imbalance (replicate 5 0) [4, 2, 0, 1, 3] = Inr (y, Some [1],
             [w1, w2, w3, SyntheticClassWeights [1], ValueCounts (bincount y)])
      \<and> y = [1, 1, 1, 1, 1]"
    using r' [unfolded w'] y' by (intro exI [of _ y'] conjI)
  note C = T3 [THEN conjunct2, THEN conjunct1, THEN mp, OF v3]
  have r4: "replicate 4 (1::int) = [1, 1, 1, 1]" by (simp add: numeral_eq_Suc)
  note D' = T3 [THEN conjunct2, THEN conjunct2, THEN mp, OF v4]
  have D: "handle_class_imbalance (replicate 4 1) [] = Inr ([1, 1, 1, 1], None, [w1, w2])"
    using D' unfolding r4 .
  from A B C D show ?thesis
    unfolding w1_def w2_def w3_def e_def by (intro conjI)
qed

theorem all_one_labels_are_not_flipped:
  "handle_class_imbalance [1, 1, 1, 1, 1, 1] [] =
     Inr ([1, 1, 1, 1, 1, 1], None,
       [Text ''Warning: Only one class found in training data! This will not work for binary classification.'',
        Text ''Please ensure your data has both normal and anomaly examples.''])"
  by (simp add: handle_class_imbalance_def np_unique_def)

section \<open>Properties of the exporters\<close>

text \<open>
  C6 (as amended).  Every run of convert_model.py that succeeds writes a sidecar that
  records the input shape of the model without its batch dimension, the threshold 0.5
  and the five root-cause labels.  Every run of prepare_for_web.py that writes its
  sidecar records the two inner dimensions of the input shape and the threshold 0.5,
  and no root-cause labels.
\<close>

theorem exporter_sidecar_contents:
  "(convert_model load_ok convert_ok input_shape = Inr (metadata, out) \<longrightarrow>
      json_path ''anomaly_detection'' ''input_shape'' metadata
        = Some (JArr (map dim_json (tl input_shape)))
    \<and> json_path ''anomaly_detection'' ''threshold'' metadata = Some (JNum (1 / 2))
    \<and> json_path ''root_cause'' ''causes'' metadata = Some (JArr (map JStr root_cause_labels)))
   \<and> (prepare_for_web load_ok save_ok conversion_ok input_shape = (Some model_metadata, out') \<longrightarrow>
      json_path ''anomaly_detection'' ''input_shape'' model_metadata
        = Some (JArr [dim_json (input_shape ! 1), dim_json (input_shape ! 2)])
    \<and> json_path ''anomaly_detection'' ''threshold'' model_metadata = Some (JNum (1 / 2))
    \<and> json_get ''root_cause'' model_metadata = None)"
proof (intro conjI impI)
  assume c: "convert_model load_ok convert_ok input_shape = Inr (metadata, out)"
  then have m: "metadata =
      JObj [(''anomaly_detection'',
               JObj [(''type'', JStr ''tensorflow''),
                     (''input_shape'', JArr (map dim_json (tl input_shape))),
                     (''threshold'', JNum (1 / 2))]),
            (''root_cause'', JObj [(''causes'', JArr (map JStr root_cause_labels))]),
            (''version'', JStr ''1.0'')]"
    by (simp add: convert_model_def split: if_splits)
  show "json_path ''anomaly_detection'' ''input_shape'' metadata
          = Some (JArr (map dim_json (tl input_shape)))"
    unfolding m by (simp add: json_path_def)
  show "json_path ''anomaly_detection'' ''threshold'' metadata = Some (JNum (1 / 2))"
    unfolding m by (simp add: json_path_def)
  show "json_path ''root_cause'' ''causes'' metadata = Some (JArr (map JStr root_cause_labels))"
    unfolding m by (simp add: json_path_def)
next
  assume p: "prepare_for_web load_ok save_ok conversion_ok input_shape = (Some model_metadata, out')"
  then have m: "model_metadata =
      JObj [(''anomaly_detection'',
               JObj [(''type'', JStr ''tensorflow''),
                     (''input_shape'',
                        JArr [dim_json (input_shape ! 1), dim_json (input_shape ! 2)]),
                     (''threshold'', JNum (1 / 2))]),
            (''version'', JStr ''1.0''),
            (''description'', JStr ''Anomaly detection model for satellite telemetry'')]"
    by (simp add: prepare_for_web_def split: if_splits)
  show "json_path ''anomaly_detection'' ''input_shape'' model_metadata
          = Some (JArr [dim_json (input_shape ! 1), dim_json (input_shape ! 2)])"
    unfolding m by (simp add: json_path_def)
  show "json_path ''anomaly_detection'' ''threshold'' model_metadata = Some (JNum (1 / 2))"
    unfolding m by (simp add: json_path_def)
  show "json_get ''root_cause'' model_metadata = None"
    unfolding m by simp
qed

lemma convert_model_example:
  "convert_model True True [None, Some 12, Some 30] =
     Inr (JObj [(''anomaly_detection'',
               JObj [(''type'', JStr ''tensorflow''),
                     (''input_shape'', JArr [JInt 12, JInt 30]),
                     (''threshold'', JNum (1 / 2))]),
            (''root_cause'', JObj [(''causes'', JArr (map JStr root_cause_labels))]),
            (''version'', JStr ''1.0'')],
          [''Model conversion completed successfully!'', ''Input shape'', ''Output shape''])"
  by (simp add: convert_model_def)

lemma prepare_for_web_example:
  "fst (prepare_for_web True True False [None, Some 12, Some 30]) =
     Some (JObj [(''anomaly_detection'',
               JObj [(''type'', JStr ''tensorflow''),
                     (''input_shape'', JArr [JInt 12, JInt 30]),
                     (''threshold'', JNum (1 / 2))]),
            (''version'', JStr ''1.0''),
            (''description'', JStr ''Anomaly detection model for satellite telemetry'')])"
  by (simp add: prepare_for_web_def)

theorem exporter_sidecar_contents_witness:
  "json_path ''root_cause'' ''causes''
       (fst (projr (convert_model True True [None, Some 12, Some 30])))
     = Some (JArr (map JStr root_cause_labels))
   \<and> json_path ''anomaly_detection'' ''input_shape''
       (fst (projr (convert_model True True [None, Some 12, Some 30])))
     = Some (JArr [JInt 12, JInt 30])
   \<and> json_path ''anomaly_detection'' ''threshold''
       (the (fst (prepare_for_web True True False [None, Some 12, Some 30])))
     = Some (JNum (1 / 2))"
proof -
  define shape where "shape = [None, Some 12, Some (30::int)]"
  obtain metadata out where c: "convert_model True True shape = Inr (metadata, out)"
    unfolding shape_def by (simp add: convert_model_def)
  obtain model_metadata out' where
    p: "prepare_for_web True True False shape = (Some model_metadata, out')"
    unfolding shape_def by (simp add: prepare_for_web_def)
  note t = exporter_sidecar_contents
    [of True True shape metadata out True False model_metadata out']
  from t c have 1: "json_path ''root_cause'' ''causes'' metadata
                      = Some (JArr (map JStr root_cause_labels))"
    and 2: "json_path ''anomaly_detection'' ''input_shape'' metadata
              = Some (JArr (map dim_json (tl shape)))"
    by simp_all
  from t p have 3: "json_path ''anomaly_detection'' ''threshold'' model_metadata
                      = Some (JNum (1 / 2))"
    by simp
  from 1 2 3 c p show ?thesis
    unfolding shape_def by simp
qed

theorem prepare_for_web_sidecar_has_no_root_causes:
  "map_option (json_get ''root_cause'')
       (fst (prepare_for_web True True True [None, Some 12, Some 30])) = Some None
   \<and> map_option (json_path ''anomaly_detection'' ''threshold'')
       (fst (prepare_for_web True True True [None, Some 12, Some 30])) = Some (Some (JNum (1 / 2)))"
  by (simp add: prepare_for_web_def json_path_def)

end
